theory Spec2Isabelle
  imports Main "HOL-Library.Sublist"
begin

section \<open>The Windows distribution script \<open>scripts/mk_win_dist_cmake.py\<close>\<close>

text \<open>
  The script drives, for the architectures x64, x86 and arm64, a configure session
  (cmake), an install session (nmake), the copying of the license and of the Visual
  Studio runtime libraries, and the creation of a zip archive. Nearly everything it does
  is an effect on the operating system, so the embedding is a state-passing one:

  \<^item> the state is the \<^emph>\<open>history\<close>: the list of steps taken so far, oldest first. A step
    is an effect on the operating system, or the mark \<open>Enter f arch\<close> that one of the five
    per-architecture functions leaves when it is called, so that the order of the
    stages can be read off the history;
  \<^item> the operating system is a record of functions of the effects so far (what
    \<open>os.path.exists\<close> answers, what a spawned session returns, whether a file operation
    raises), so no behaviour of the file system or of the toolchain is assumed;
  \<^item> every \<open>raise\<close>, every failing dictionary or name lookup and every failing OS call
    is an \<open>Inl\<close> result; \<open>try ... except: pass\<close> is \<open>py_try_pass\<close>.

  Console output (\<open>print\<close>) is not modelled. The model starts where \<open>main\<close> dispatches
  on the scope (line 375): the platform check, option parsing (which also makes the
  three workspace directories) and the command-prompt check before it produce the
  configuration record.
\<close>

subsection \<open>Strings and paths\<close>

definition BSLASH :: char where
  "BSLASH = CHR 0x5C"

definition DQUOTE :: char where
  "DQUOTE = CHR 0x22"

definition LF :: char where
  "LF = CHR 0x0A"

definition CR :: char where
  "CR = CHR 0x0D"

type_synonym path = string

text \<open>Python's \<open>sub in s\<close> on strings.\<close>

fun str_in :: "string \<Rightarrow> string \<Rightarrow> bool" where
  "str_in sub [] = (sub = [])"
| "str_in sub (c # cs) = (prefix sub (c # cs) \<or> str_in sub cs)"

text \<open>Python's \<open>s.split(sep)\<close> for a one-character separator: \<open>''''.split(' ') = ['''']\<close>.\<close>

fun split_on :: "char \<Rightarrow> string \<Rightarrow> string list" where
  "split_on sep [] = [[]]"
| "split_on sep (c # cs) =
     (if c = sep then [] # split_on sep cs
      else (case split_on sep cs of
              w # ws \<Rightarrow> (c # w) # ws
            | [] \<Rightarrow> [[c]]))"

text \<open>\<open>s.rstrip('\r\n')\<close>: drop every trailing carriage return and line feed.\<close>

definition rstrip_crlf :: "string \<Rightarrow> string" where
  "rstrip_crlf s = rev (dropWhile (\<lambda>c. c = CR \<or> c = LF) (rev s))"

text \<open>
  \<open>os.path.join\<close> of \<open>ntpath\<close> (the script runs on Windows only) for a second component
  that is a plain relative name, which is all the script passes: the separator is
  inserted unless the first path, after its drive letter, is empty or ends in a
  separator. UNC prefixes are not modelled.
\<close>

definition splitdrive :: "path \<Rightarrow> path \<times> path" where
  "splitdrive p = (if 2 \<le> length p \<and> p ! 1 = CHR '':'' then (take 2 p, drop 2 p) else ([], p))"

definition path_join :: "path \<Rightarrow> path \<Rightarrow> path" where
  "path_join p q =
     (case splitdrive p of (drive, rest) \<Rightarrow>
        if rest \<noteq> [] \<and> last rest \<noteq> BSLASH \<and> last rest \<noteq> CHR ''/''
        then drive @ rest @ [BSLASH] @ q
        else drive @ rest @ q)"

text \<open>Backslash-separated literal paths of the source, written component by component.\<close>

fun bslashed :: "string list \<Rightarrow> string" where
  "bslashed [] = []"
| "bslashed [x] = x"
| "bslashed (x # y # ys) = x @ [BSLASH] @ bslashed (y # ys)"

subsection \<open>Effects, errors and the operating system\<close>

datatype compression = ZIP_STORED | ZIP_DEFLATED

datatype event =
    MakeDirs path
  | WriteFile path string
  | Call path "int option"
  | Popen "string list" "string option"
  | CopyFile path path
  | Chdir path
  | ZipOpen path compression

text \<open>
  \<open>MakeDirs d\<close>: \<open>os.makedirs(d)\<close>. \<open>WriteFile p s\<close>: \<open>p\<close> was opened for writing, \<open>s\<close>
  written and the file closed. \<open>Call p r\<close>: \<open>subprocess.call(p, shell=True)\<close> returned exit
  status \<open>n\<close> (\<open>r = Some n\<close>) or raised (\<open>r = None\<close>). \<open>Popen cmd r\<close>:
  \<open>subprocess.Popen(cmd, stdout=PIPE).communicate()[0]\<close>, decoded, was \<open>out\<close>
  (\<open>r = Some out\<close>) or the call raised. \<open>CopyFile s d\<close>: \<open>shutil.copy(s, d)\<close>.
  \<open>Chdir d\<close>: \<open>os.chdir(d)\<close>. \<open>ZipOpen p c\<close>: \<open>zipfile.ZipFile(p, 'w', c)\<close>.
\<close>

datatype step = Enter string string | Effect event

type_synonym history = "step list"

fun effects :: "history \<Rightarrow> event list" where
  "effects [] = []"
| "effects (Enter f a # h) = effects h"
| "effects (Effect ev # h) = ev # effects h"

fun entered :: "history \<Rightarrow> (string \<times> string) list" where
  "entered [] = []"
| "entered (Enter f a # h) = (f, a) # entered h"
| "entered (Effect ev # h) = entered h"

datatype error =
    MKException string
  | KeyError string
  | NameError string
  | AttributeError string
  | OSError event

record os =
  os_environ :: "string \<Rightarrow> string option"
  os_path_exists :: "event list \<Rightarrow> path \<Rightarrow> bool"
  os_path_isdir :: "event list \<Rightarrow> path \<Rightarrow> bool"
  os_walk :: "event list \<Rightarrow> path \<Rightarrow> (path \<times> string list \<times> string list) list"
  os_getcwd :: "event list \<Rightarrow> path"
  os_raises :: "event list \<Rightarrow> event \<Rightarrow> bool"
  subprocess_call :: "event list \<Rightarrow> path \<Rightarrow> int option"
  subprocess_popen :: "event list \<Rightarrow> string list \<Rightarrow> string option"

text \<open>
  Each function takes the effects so far. \<open>os_walk os es p\<close> is what \<open>os.walk(p)\<close>
  yields: the triples (root, dirs, files), top down.
  \<open>os_raises os es ev\<close>: after the effects \<open>es\<close>, the file operation whose effect would be
  \<open>ev\<close> (\<open>MakeDirs\<close>, \<open>WriteFile\<close>, \<open>CopyFile\<close>, \<open>Chdir\<close>, \<open>ZipOpen\<close>) raises \<open>OSError\<close>
  and has no effect.
\<close>

type_synonym 'a py = "history \<Rightarrow> (error + 'a) \<times> history"

definition py_return :: "'a \<Rightarrow> 'a py" where
  "py_return x h = (Inr x, h)"

definition py_raise :: "error \<Rightarrow> 'a py" where
  "py_raise e h = (Inl e, h)"

definition py_bind :: "'a py \<Rightarrow> ('a \<Rightarrow> 'b py) \<Rightarrow> 'b py" where
  "py_bind m f h = (case m h of (Inl e, h') \<Rightarrow> (Inl e, h') | (Inr x, h') \<Rightarrow> f x h')"

text \<open>\<open>try: m  except: pass\<close>: whatever \<open>m\<close> raised is dropped; its effects stay.\<close>

definition py_try_pass :: "unit py \<Rightarrow> unit py" where
  "py_try_pass m h = (Inr (), snd (m h))"

text \<open>\<open>for x in xs: f(x)\<close>: an exception leaves the loop.\<close>

fun py_for :: "('a \<Rightarrow> unit py) \<Rightarrow> 'a list \<Rightarrow> unit py" where
  "py_for f [] h = (Inr (), h)"
| "py_for f (x # xs) h =
     (case f x h of (Inl e, h') \<Rightarrow> (Inl e, h') | (Inr u, h') \<Rightarrow> py_for f xs h')"

text \<open>Reading the operating system: a function of the effects so far, no step.\<close>

definition ask :: "(event list \<Rightarrow> 'a) \<Rightarrow> 'a py" where
  "ask q h = (Inr (q (effects h)), h)"

definition enter :: "string \<Rightarrow> string \<Rightarrow> unit py" where
  "enter f arch h = (Inr (), h @ [Enter f arch])"

definition perform :: "os \<Rightarrow> event \<Rightarrow> unit py" where
  "perform os ev h =
     (if os_raises os (effects h) ev then (Inl (OSError ev), h) else (Inr (), h @ [Effect ev]))"

subsection \<open>Configuration: the module's globals after option parsing\<close>

record config =
  build_subdir :: path
  FORCE_MK :: bool
  ASSEMBLY_VERSION :: "string option"
  DOTNET_CORE_ENABLED :: bool
  JAVA_ENABLED :: bool
  ZIP_BUILD_OUTPUTS :: bool
  GIT_HASH :: bool
  PYTHON_ENABLED :: bool
  X86ONLY :: bool
  X64ONLY :: bool
  ARM64ONLY :: bool

definition DIST_DIR :: path where
  "DIST_DIR = ''dist''"

text \<open>
  \<open>set_build_dir\<close> (line 64) makes \<open>ARCHS\<close> the dictionary below; a Python dictionary
  iterates in insertion order.
\<close>

definition ARCHS :: "config \<Rightarrow> (string \<times> path) list" where
  "ARCHS cfg =
     [(''x64'', path_join (build_subdir cfg) ''x64''),
      (''x86'', path_join (build_subdir cfg) ''x86''),
      (''arm64'', path_join (build_subdir cfg) ''arm64'')]"

definition arch_keys :: "config \<Rightarrow> string list" where
  "arch_keys cfg = map fst (ARCHS cfg)"

text \<open>\<open>ARCHS[arch]\<close>, also \<open>get_build_dir\<close>.\<close>

definition get_build_dir :: "config \<Rightarrow> string \<Rightarrow> path py" where
  "get_build_dir cfg arch =
     (case map_of (ARCHS cfg) arch of
        None \<Rightarrow> py_raise (KeyError arch)
      | Some d \<Rightarrow> py_return d)"

subsection \<open>Workspace state (lines 54-56, 146-147)\<close>

definition mk_dir :: "os \<Rightarrow> path \<Rightarrow> unit py" where
  "mk_dir os d =
     py_bind (ask (\<lambda>es. os_path_exists os es d)) (\<lambda>exists.
       if \<not> exists then perform os (MakeDirs d) else py_return ())"

definition check_build_dir :: "os \<Rightarrow> event list \<Rightarrow> path \<Rightarrow> bool" where
  "check_build_dir os es p \<longleftrightarrow>
     os_path_exists os es p \<and> os_path_exists os es (path_join p ''Makefile'')"

subsection \<open>Source revision (lines 149-167)\<close>

definition check_output :: "os \<Rightarrow> string list \<Rightarrow> string py" where
  "check_output os cmd h =
     (case subprocess_popen os (effects h) cmd of
        None \<Rightarrow> (Inl (OSError (Popen cmd None)), h @ [Effect (Popen cmd None)])
      | Some out \<Rightarrow> (Inr (rstrip_crlf out), h @ [Effect (Popen cmd (Some out))]))"

definition git_branch_cmd :: "string list" where
  "git_branch_cmd = [''git'', ''rev-parse'', ''--abbrev-ref'', ''HEAD'']"

definition git_show_ref_cmd :: "string \<Rightarrow> string list" where
  "git_show_ref_cmd branch = [''git'', ''show-ref'', ''--abbrev=12'', ''refs/heads/'' @ branch]"

definition get_git_hash :: "os \<Rightarrow> string py" where
  "get_git_hash os h =
     (case py_bind (check_output os git_branch_cmd)
             (\<lambda>branch. check_output os (git_show_ref_cmd branch)) h of
        (Inl e, h') \<Rightarrow> (Inl (MKException ''Failed to retrieve git hash''), h')
      | (Inr r, h') \<Rightarrow>
          (case split_on CHR '' '' r of
             [x, y] \<Rightarrow> (Inr x, h')
           | ls \<Rightarrow> (Inl (MKException (''Unexpected git output '' @ r)), h')))"

subsection \<open>Command executor (lines 230-246)\<close>

definition cmd_file :: path where
  "cmd_file = ''z3_tmp.cmd''"

definition script_of :: "string list \<Rightarrow> string" where
  "script_of cmds = concat (map (\<lambda>cmd. cmd @ [LF]) cmds)"

text \<open>The module \<open>os\<close> has no function \<open>erase\<close>: the call raises \<open>AttributeError\<close>.\<close>

definition os_erase :: "path \<Rightarrow> unit py" where
  "os_erase p = py_raise (AttributeError ''erase'')"

definition exec_cmds :: "os \<Rightarrow> string list \<Rightarrow> int py" where
  "exec_cmds os cmds =
     py_bind (perform os (WriteFile cmd_file (script_of cmds)))
       (\<lambda>_ h. let st = subprocess_call os (effects h) cmd_file;
                  res = (case st of Some rc \<Rightarrow> rc | None \<Rightarrow> 1)
              in py_bind (py_try_pass (os_erase cmd_file)) (\<lambda>_. py_return res)
                   (h @ [Effect (Call cmd_file st)]))"

subsection \<open>Configure and install (lines 172-213, 252-261)\<close>

definition vcvarsall_2022 :: string where
  "vcvarsall_2022 =
     bslashed [''C:'', ''Program Files'', ''Microsoft Visual Studio'', ''2022'', ''Enterprise'',
               ''VC'', ''Auxiliary'', ''Build'', ''vcvarsall.bat'']"

definition dotnet_flags :: "string list" where
  "dotnet_flags = ['' -DZ3_BUILD_DOTNET_BINDINGS=ON'', '' -DZ3_INSTALL_DOTNET_BINDINGS=ON'']"

definition java_flags :: "string list" where
  "java_flags =
     ['' -DZ3_BUILD_JAVA_BINDINGS=ON'', '' -DZ3_INSTALL_JAVA_BINDINGS=ON'',
      '' -DZ3_JAVA_JAR_INSTALLDIR=java'', '' -DZ3_JAVA_JNI_LIB_INSTALLDIR=java'']"

definition python_flags :: "string list" where
  "python_flags =
     ['' -DZ3_BUILD_PYTHON_BINDINGS=ON'', '' -DZ3_INSTALL_PYTHON_BINDINGS=ON'',
      '' -DCMAKE_INSTALL_PYTHON_PKG_DIR=python'']"

text \<open>
  The list \<open>cmd\<close> of lines 185-208. \<open>git_hash\<close> is \<open>Some\<close> of what \<open>get_git_hash\<close> returned
  when \<open>GIT_HASH\<close> is set, \<open>None\<close> otherwise.
\<close>

definition cmake_cmd :: "config \<Rightarrow> string option \<Rightarrow> string list" where
  "cmake_cmd cfg git_hash =
     [''cmake -S .'']
     @ (if DOTNET_CORE_ENABLED cfg then dotnet_flags else [])
     @ (if JAVA_ENABLED cfg then java_flags else [])
     @ (if PYTHON_ENABLED cfg then python_flags else [])
     @ (case git_hash of Some g \<Rightarrow> ['' -DGIT_HASH='' @ g] | None \<Rightarrow> [])
     @ ['' -DZ3_USE_LIB_GMP=OFF'',
        '' -DZ3_BUILD_LIBZ3_SHARED=ON'',
        '' -DCMAKE_BUILD_TYPE=RelWithDebInfo'',
        '' -DCMAKE_INSTALL_PREFIX='' @ DIST_DIR,
        '' -G '' @ [DQUOTE] @ ''NMake Makefiles'' @ [DQUOTE],
        '' ../..'' @ [LF]]"

text \<open>The list \<open>cmds\<close> of lines 179-209.\<close>

definition configure_cmds :: "config \<Rightarrow> path \<Rightarrow> string \<Rightarrow> string option \<Rightarrow> string list" where
  "configure_cmds cfg build_path arch git_hash =
     [''cd '' @ build_path,
      ''call '' @ [DQUOTE] @ vcvarsall_2022 @ [DQUOTE] @ '' ''
        @ (if arch = ''arm64'' then ''amd64_arm64'' else arch),
      concat (cmake_cmd cfg git_hash)]"

definition mk_build_dir :: "config \<Rightarrow> os \<Rightarrow> string \<Rightarrow> unit py" where
  "mk_build_dir cfg os arch =
     py_bind (enter ''mk_build_dir'' arch) (\<lambda>_.
     py_bind (get_build_dir cfg arch) (\<lambda>build_path.
     py_bind (ask (\<lambda>es. check_build_dir os es build_path)) (\<lambda>configured.
       if \<not> configured \<or> FORCE_MK cfg then
         py_bind (mk_dir os build_path) (\<lambda>_.
         py_bind (if GIT_HASH cfg
                  then py_bind (get_git_hash os) (\<lambda>g. py_return (Some g))
                  else py_return None) (\<lambda>git_hash.
         py_bind (exec_cmds os (configure_cmds cfg build_path arch git_hash)) (\<lambda>res.
           if res \<noteq> 0 then py_raise (MKException ''failed to run commands'')
           else py_return ())))
       else py_return ())))"

definition install_cmds :: "path \<Rightarrow> string \<Rightarrow> string list" where
  "install_cmds build_dir arch =
     [''call '' @ [DQUOTE] @ ''%VCINSTALLDIR%Auxiliary'' @ [BSLASH] @ ''build'' @ [BSLASH]
        @ ''vcvarsall.bat'' @ [DQUOTE] @ '' '' @ (if arch = ''arm64'' then ''x64_arm64'' else arch),
      ''cd '' @ build_dir,
      ''nmake install'']"

definition mk_z3 :: "config \<Rightarrow> os \<Rightarrow> string \<Rightarrow> unit py" where
  "mk_z3 cfg os arch =
     py_bind (enter ''mk_z3'' arch) (\<lambda>_.
     py_bind (get_build_dir cfg arch) (\<lambda>build_dir.
     py_bind (exec_cmds os (install_cmds build_dir arch)) (\<lambda>res.
       if res \<noteq> 0 then py_raise (MKException ''Failed to make z3'')
       else py_return ())))"

subsection \<open>Distribution name and archive (lines 268-297)\<close>

text \<open>\<open>if ASSEMBLY_VERSION:\<close> is false for \<open>None\<close> and for the empty string.\<close>

definition z3_version :: "config \<Rightarrow> string" where
  "z3_version cfg =
     (case ASSEMBLY_VERSION cfg of
        None \<Rightarrow> ''4''
      | Some v \<Rightarrow> if v = [] then ''4'' else v)"

definition get_z3_name :: "config \<Rightarrow> os \<Rightarrow> string \<Rightarrow> string py" where
  "get_z3_name cfg os arch =
     (if GIT_HASH cfg
      then py_bind (get_git_hash os) (\<lambda>g.
             py_return (''z3-'' @ z3_version cfg @ ''.'' @ g @ ''-'' @ arch @ ''-win''))
      else py_return (''z3-'' @ z3_version cfg @ ''-'' @ arch @ ''-win''))"

text \<open>
  The body of the \<open>try\<close> of \<open>mk_zip\<close> (lines 287-294). The name \<open>dist_path\<close> of line 290 is
  bound nowhere in the module, so evaluating \<open>os.walk(dist_path)\<close> raises \<open>NameError\<close>
  once the archive has been opened: the loop that writes the entries and the message
  of line 294 are never reached.
\<close>

definition mk_zip_body :: "os \<Rightarrow> path \<Rightarrow> string \<Rightarrow> unit py" where
  "mk_zip_body os dist_dir dist_name =
     py_bind (perform os (Chdir dist_dir)) (\<lambda>_.
     py_bind (perform os (ZipOpen (dist_name @ ''.zip'') ZIP_DEFLATED)) (\<lambda>_.
       py_raise (NameError ''dist_path'')))"

definition mk_zip :: "config \<Rightarrow> os \<Rightarrow> string \<Rightarrow> unit py" where
  "mk_zip cfg os arch =
     py_bind (enter ''mk_zip'' arch) (\<lambda>_.
     py_bind (get_build_dir cfg arch) (\<lambda>build_dir.
     py_bind (get_z3_name cfg os arch) (\<lambda>dist_name.
     py_bind (ask (os_getcwd os)) (\<lambda>old.
     py_bind (py_try_pass (mk_zip_body os (path_join build_dir DIST_DIR) dist_name)) (\<lambda>_.
       perform os (Chdir old))))))"

subsection \<open>Runtime libraries and license (lines 306-350)\<close>

text \<open>
  \<open>fnmatch(filename, '*.dll')\<close>: on Windows both sides go through \<open>os.path.normcase\<close>,
  which lowers the case, and the pattern then asks for the suffix \<open>.dll\<close>. Only the
  ASCII letters matter for that suffix.
\<close>

definition ascii_lower :: "char \<Rightarrow> char" where
  "ascii_lower c =
     (let n = (of_char c :: nat) in if 65 \<le> n \<and> n \<le> 90 then char_of (n + 32) else c)"

definition fnmatch_dll :: "string \<Rightarrow> bool" where
  "fnmatch_dll filename \<longleftrightarrow> suffix ''.dll'' (map ascii_lower filename)"

text \<open>
  \<open>VS_RUNTIME_PATS\<close>: each pattern is \<open>re.compile(r'<pre>.*\.dll')\<close>, given here by its
  literal prefix. \<open>pat.match(s)\<close> anchors at the start of \<open>s\<close> only; \<open>.\<close> matches any
  character but a line feed, so \<open>.dll\<close> must occur in what is left of the first line
  after the prefix.
\<close>

definition VS_RUNTIME_PATS :: "string list" where
  "VS_RUNTIME_PATS = [''vcomp'', ''msvcp'', ''msvcr'', ''vcrun'']"

definition pat_match :: "string \<Rightarrow> string \<Rightarrow> bool" where
  "pat_match pre s \<longleftrightarrow>
     prefix pre s \<and> str_in ''.dll'' (takeWhile (\<lambda>c. c \<noteq> LF) (drop (length pre) s))"

definition check_root :: "string \<Rightarrow> path \<Rightarrow> bool" where
  "check_root platform root \<longleftrightarrow>
     str_in platform root \<and> (str_in ''CRT'' root \<or> str_in ''MP'' root)
     \<and> \<not> str_in ''onecore'' root \<and> \<not> str_in ''debug'' root"

text \<open>The walk of lines 326-334: the list \<open>vs_runtime_files\<close> when the loops are done.\<close>

definition vs_runtime_files :: "os \<Rightarrow> event list \<Rightarrow> string \<Rightarrow> path \<Rightarrow> path list" where
  "vs_runtime_files os es platform p =
     concat (map (\<lambda>(root, dirs, files).
       concat (map (\<lambda>filename.
         if fnmatch_dll filename \<and> check_root platform root then
           concat (map (\<lambda>pat.
             if pat_match pat filename then
               (let fname = path_join root filename
                in if \<not> os_path_isdir os es fname then [fname] else [])
             else []) VS_RUNTIME_PATS)
         else []) files)) (os_walk os es p))"

definition cp_vs_runtime :: "config \<Rightarrow> os \<Rightarrow> string \<Rightarrow> unit py" where
  "cp_vs_runtime cfg os arch =
     py_bind (enter ''cp_vs_runtime'' arch) (\<lambda>_.
     py_bind (case os_environ os ''VCINSTALLDIR'' of
                None \<Rightarrow> py_raise (KeyError ''VCINSTALLDIR'')
              | Some vcdir \<Rightarrow> py_return vcdir) (\<lambda>vcdir.
     py_bind (ask (\<lambda>es. vs_runtime_files os es arch (vcdir @ ''redist''))) (\<lambda>found.
       if found = [] then py_raise (MKException ''Did not find any runtime files to include'')
       else
         py_bind (get_build_dir cfg arch) (\<lambda>build_dir.
           py_for (\<lambda>f. perform os (CopyFile f (path_join (path_join build_dir DIST_DIR) ''bin'')))
             found))))"

definition cp_license :: "config \<Rightarrow> os \<Rightarrow> string \<Rightarrow> unit py" where
  "cp_license cfg os arch =
     py_bind (enter ''cp_license'' arch) (\<lambda>_.
     py_bind (get_z3_name cfg os arch) (\<lambda>name.
       perform os (CopyFile ''LICENSE.txt'' (path_join DIST_DIR name))))"

subsection \<open>Orchestration (lines 217-220, 263-266, 300-303, 344-387)\<close>

definition mk_build_dirs :: "config \<Rightarrow> os \<Rightarrow> unit py" where
  "mk_build_dirs cfg os = py_for (mk_build_dir cfg os) (arch_keys cfg)"

definition mk_z3s :: "config \<Rightarrow> os \<Rightarrow> unit py" where
  "mk_z3s cfg os = py_for (mk_z3 cfg os) (arch_keys cfg)"

definition mk_zips :: "config \<Rightarrow> os \<Rightarrow> unit py" where
  "mk_zips cfg os = py_for (mk_zip cfg os) (arch_keys cfg)"

definition cp_vs_runtimes :: "config \<Rightarrow> os \<Rightarrow> unit py" where
  "cp_vs_runtimes cfg os = py_for (cp_vs_runtime cfg os) (arch_keys cfg)"

definition cp_licenses :: "config \<Rightarrow> os \<Rightarrow> unit py" where
  "cp_licenses cfg os = py_for (cp_license cfg os) (arch_keys cfg)"

definition build_for_arch :: "config \<Rightarrow> os \<Rightarrow> string \<Rightarrow> unit py" where
  "build_for_arch cfg os arch =
     py_bind (mk_build_dir cfg os arch) (\<lambda>_.
     py_bind (mk_z3 cfg os arch) (\<lambda>_.
     py_bind (cp_license cfg os arch) (\<lambda>_.
     py_bind (cp_vs_runtime cfg os arch) (\<lambda>_.
       if ZIP_BUILD_OUTPUTS cfg then mk_zip cfg os arch else py_return ()))))"

definition main :: "config \<Rightarrow> os \<Rightarrow> unit py" where
  "main cfg os =
     (if X86ONLY cfg then build_for_arch cfg os ''x86''
      else if X64ONLY cfg then build_for_arch cfg os ''x64''
      else if ARM64ONLY cfg then build_for_arch cfg os ''arm64''
      else
        py_bind (mk_build_dirs cfg os) (\<lambda>_.
        py_bind (mk_z3s cfg os) (\<lambda>_.
        py_bind (cp_licenses cfg os) (\<lambda>_.
        py_bind (cp_vs_runtimes cfg os) (\<lambda>_.
          if ZIP_BUILD_OUTPUTS cfg then mk_zips cfg os else py_return ())))))"

section \<open>Example configurations and operating systems\<close>

text \<open>
  Concrete inputs on which the theorems below are evaluated. \<open>example_cfg\<close> is the
  configuration after \<open>--nodotnet --nojava --nopython --zip\<close>: no optional component,
  archives enabled, version 4, no revision, every architecture in scope.
\<close>

definition example_cfg :: config where
  "example_cfg =
     \<lparr> build_subdir = ''build-dist'', FORCE_MK = False, ASSEMBLY_VERSION = None,
       DOTNET_CORE_ENABLED = False, JAVA_ENABLED = False, ZIP_BUILD_OUTPUTS = True,
       GIT_HASH = False, PYTHON_ENABLED = False,
       X86ONLY = False, X64ONLY = False, ARM64ONLY = False \<rparr>"

definition example_vcdir :: path where
  "example_vcdir = bslashed [''C:'', ''VS'', ''VC'', '''']"

definition crt_dir :: "string list \<Rightarrow> path" where
  "crt_dir sub = bslashed ([''C:'', ''VS'', ''VC'', ''redist'', ''MSVC'', ''14.x''] @ sub)"

text \<open>A toolchain tree with redistributables for x64 only, and their debug variant.\<close>

definition redist_x64_only :: "(path \<times> string list \<times> string list) list" where
  "redist_x64_only =
     [(crt_dir [], [''x64'', ''debug''], []),
      (crt_dir [''x64''], [''Microsoft.VC143.CRT''], []),
      (crt_dir [''x64'', ''Microsoft.VC143.CRT''], [], [''vcruntime140.dll'', ''readme.txt'']),
      (crt_dir [''debug''], [''x64''], []),
      (crt_dir [''debug'', ''x64''], [''Microsoft.VC143.CRT''], []),
      (crt_dir [''debug'', ''x64'', ''Microsoft.VC143.CRT''], [], [''vcruntime140.dll''])]"

text \<open>The same with one runtime library for each of the three architectures.\<close>

definition redist_all :: "(path \<times> string list \<times> string list) list" where
  "redist_all =
     [(crt_dir [''x64'', ''Microsoft.VC143.CRT''], [], [''vcruntime140.dll'']),
      (crt_dir [''x86'', ''Microsoft.VC143.CRT''], [], [''msvcp140.dll'']),
      (crt_dir [''arm64'', ''Microsoft.VC143.CRT''], [], [''vcomp140.dll''])]"

text \<open>
  An operating system given by: which paths exist, what every spawned session returns,
  what the git queries print, which file operations raise, and the toolchain tree.
\<close>

definition example_os ::
  "(event list \<Rightarrow> path \<Rightarrow> bool) \<Rightarrow> int option \<Rightarrow> (string list \<Rightarrow> string option) \<Rightarrow> (event \<Rightarrow> bool)
   \<Rightarrow> (path \<times> string list \<times> string list) list \<Rightarrow> os" where
  "example_os ex status git raises tree =
     \<lparr> os_environ = (\<lambda>v. if v = ''VCINSTALLDIR'' then Some example_vcdir else None),
       os_path_exists = ex,
       os_path_isdir = (\<lambda>es p. False),
       os_walk = (\<lambda>es p. if p = example_vcdir @ ''redist'' then tree else []),
       os_getcwd = (\<lambda>es. bslashed [''C:'', ''z3'']),
       os_raises = (\<lambda>es. raises),
       subprocess_call = (\<lambda>es p. status),
       subprocess_popen = (\<lambda>es. git) \<rparr>"

text \<open>Every workspace is configured already and every session succeeds.\<close>

definition os_configured :: os where
  "os_configured = example_os (\<lambda>es p. True) (Some 0) (\<lambda>cmd. None) (\<lambda>ev. False) redist_x64_only"

text \<open>The script \<open>z3_tmp.cmd\<close> cannot be written (a read-only working directory).\<close>

definition os_readonly :: os where
  "os_readonly =
     example_os (\<lambda>es p. True) (Some 0) (\<lambda>cmd. None)
       (\<lambda>ev. case ev of WriteFile p s \<Rightarrow> True | _ \<Rightarrow> False) redist_x64_only"

text \<open>No session can be spawned: \<open>subprocess.call\<close> raises.\<close>

definition os_no_shell :: os where
  "os_no_shell = example_os (\<lambda>es p. True) None (\<lambda>cmd. None) (\<lambda>ev. False) redist_x64_only"

text \<open>
  A fresh checkout: the workspace directories exist (\<open>set_build_dir\<close> made them while
  the options were parsed), no \<open>Makefile\<close> does, so no workspace is configured.
\<close>

definition no_makefile :: "event list \<Rightarrow> path \<Rightarrow> bool" where
  "no_makefile es p \<longleftrightarrow> \<not> suffix ''Makefile'' p"

definition os_fresh :: os where
  "os_fresh = example_os no_makefile (Some 0) (\<lambda>cmd. None) (\<lambda>ev. False) redist_all"

text \<open>The same, with a toolchain whose every session exits with status 1.\<close>

definition os_failing :: os where
  "os_failing = example_os no_makefile (Some 1) (\<lambda>cmd. None) (\<lambda>ev. False) redist_all"

text \<open>
  A configured checkout with git: the branch is \<open>master\<close>, its head \<open>0123456789ab\<close>.
\<close>

definition os_git :: os where
  "os_git =
     example_os (\<lambda>es p. True) (Some 0)
       (\<lambda>cmd. if cmd = git_branch_cmd then Some (''master'' @ [LF])
              else if cmd = git_show_ref_cmd ''master''
              then Some (''0123456789ab refs/heads/master'' @ [LF])
              else Some '''')
       (\<lambda>ev. False) redist_x64_only"


section \<open>The runtime locator in the words of the specification\<close>

text \<open>
  The specification accepts a file when its name matches the \<open>*.dll\<close> glob, the path of
  its directory contains the architecture's platform token, contains \<open>CRT\<close> or \<open>MP\<close>,
  contains neither \<open>onecore\<close> nor \<open>debug\<close> (as substrings, case-sensitive), and the name
  matches one of the four runtime patterns: one of the prefixes, then anything on the
  same line, then \<open>.dll\<close>.
\<close>

definition name_pattern :: "string \<Rightarrow> string \<Rightarrow> bool" where
  "name_pattern pre f \<longleftrightarrow> (\<exists>v rest. f = pre @ v @ ''.dll'' @ rest \<and> LF \<notin> set v)"

definition runtime_file_spec :: "string \<Rightarrow> path \<Rightarrow> string \<Rightarrow> bool" where
  "runtime_file_spec platform root f \<longleftrightarrow>
     suffix ''.dll'' (map ascii_lower f)
     \<and> sublist platform root
     \<and> (sublist ''CRT'' root \<or> sublist ''MP'' root)
     \<and> \<not> sublist ''onecore'' root \<and> \<not> sublist ''debug'' root
     \<and> (name_pattern ''vcrun'' f \<or> name_pattern ''msvcp'' f
        \<or> name_pattern ''msvcr'' f \<or> name_pattern ''vcomp'' f)"

section \<open>Properties of runs\<close>

text \<open>
  A computation \<open>obeys P\<close> when every run of it only extends the history, and \<open>P\<close> holds of
  what it raised (\<open>None\<close> when it returned) and of the steps it added.
\<close>

definition raised :: "error + 'a \<Rightarrow> error option" where
  "raised r = (case r of Inl e \<Rightarrow> Some e | Inr x \<Rightarrow> None)"

definition obeys :: "(error option \<Rightarrow> history \<Rightarrow> bool) \<Rightarrow> 'a py \<Rightarrow> bool" where
  "obeys P m \<longleftrightarrow> (\<forall>h. \<exists>new. snd (m h) = h @ new \<and> P (raised (fst (m h))) new)"

text \<open>The steps added are effects only, each of a kind \<open>K\<close> allows.\<close>

definition effs :: "(event \<Rightarrow> bool) \<Rightarrow> error option \<Rightarrow> history \<Rightarrow> bool" where
  "effs K r new \<longleftrightarrow> (\<exists>es. new = map Effect es \<and> (\<forall>e\<in>set es. K e))"

datatype kind = KMakeDirs | KWriteFile | KCall | KPopen | KCopyFile | KChdir | KZipOpen

fun kind_of :: "event \<Rightarrow> kind" where
  "kind_of (MakeDirs d) = KMakeDirs"
| "kind_of (WriteFile p s) = KWriteFile"
| "kind_of (Call p r) = KCall"
| "kind_of (Popen c r) = KPopen"
| "kind_of (CopyFile s d) = KCopyFile"
| "kind_of (Chdir d) = KChdir"
| "kind_of (ZipOpen p c) = KZipOpen"

text \<open>
  The steps added are the entry mark of the per-architecture function \<open>f\<close>, called with
  \<open>a\<close>, and then effects that \<open>K\<close> allows.
\<close>

definition stage :: "string \<Rightarrow> string \<Rightarrow> (event \<Rightarrow> bool) \<Rightarrow> error option \<Rightarrow> history \<Rightarrow> bool" where
  "stage f a K r new \<longleftrightarrow> (\<exists>es. new = Enter f a # map Effect es \<and> (\<forall>e\<in>set es. K e))"

text \<open>
  The three effects of packaging: the license file copied into the distribution root of
  some name; a file whose name matches \<open>*.dll\<close> copied into the install \<open>bin\<close> directory
  of an architecture of the registry; an archive opened with deflate compression.
\<close>

definition license_copy :: "event \<Rightarrow> bool" where
  "license_copy e \<longleftrightarrow> (\<exists>name. e = CopyFile ''LICENSE.txt'' (path_join DIST_DIR name))"

definition runtime_copy :: "config \<Rightarrow> event \<Rightarrow> bool" where
  "runtime_copy cfg e \<longleftrightarrow>
     (\<exists>f arch build_dir. map_of (ARCHS cfg) arch = Some build_dir \<and> fnmatch_dll f
        \<and> e = CopyFile f (path_join (path_join build_dir DIST_DIR) ''bin''))"

definition archive_write :: "event \<Rightarrow> bool" where
  "archive_write e \<longleftrightarrow> (\<exists>p. e = ZipOpen p ZIP_DEFLATED)"

text \<open>
  A failed session: \<open>subprocess.call\<close> raised or returned a status other than 0. A run is
  \<open>fail_stop\<close> when a failed session is the last step it takes and it ends with one of
  the two exceptions that \<open>mk_build_dir\<close> and \<open>mk_z3\<close> raise for it.
\<close>

definition failed_call :: "step \<Rightarrow> bool" where
  "failed_call s \<longleftrightarrow> (\<exists>p st. s = Effect (Call p st) \<and> st \<noteq> Some 0)"

definition toolchain_error :: "error \<Rightarrow> bool" where
  "toolchain_error e \<longleftrightarrow>
     e = MKException ''failed to run commands'' \<or> e = MKException ''Failed to make z3''"

definition fail_stop :: "error option \<Rightarrow> history \<Rightarrow> bool" where
  "fail_stop r new \<longleftrightarrow>
     (\<forall>pre s post. new = pre @ s # post \<longrightarrow> failed_call s \<longrightarrow>
        post = [] \<and> (\<exists>e. r = Some e \<and> toolchain_error e))"

text \<open>
  The functions entered, in order: a prefix of the plan, and the whole plan when the
  run returned. \<open>all_scope_plan\<close> is the order of lines 382-387: stage by stage, each
  stage for every architecture of the registry.
\<close>

definition enters :: "(string \<times> string) list \<Rightarrow> error option \<Rightarrow> history \<Rightarrow> bool" where
  "enters plan r new \<longleftrightarrow> prefix (entered new) plan \<and> (r = None \<longrightarrow> entered new = plan)"

definition all_scope_plan :: "config \<Rightarrow> (string \<times> string) list" where
  "all_scope_plan cfg =
     concat (map (\<lambda>f. map (Pair f) (arch_keys cfg))
       ([''mk_build_dir'', ''mk_z3'', ''cp_license'', ''cp_vs_runtime'']
        @ (if ZIP_BUILD_OUTPUTS cfg then [''mk_zip''] else [])))"

text \<open>
  Architecture by architecture, as the specification has it: once the run has moved on
  from an architecture it does not come back to it.
\<close>

fun arch_sequential :: "string list \<Rightarrow> bool" where
  "arch_sequential [] = True"
| "arch_sequential (a # as) = (a \<notin> set (dropWhile (\<lambda>b. b = a) as) \<and> arch_sequential as)"

section \<open>Revision resolution in the words of the specification\<close>



section \<open>Packaging effects\<close>

text \<open>
  The packaging effects are the copies and the archives opened; \<open>pk C\<close>: those among the
  steps added all satisfy \<open>C\<close>; \<open>packaging_order\<close>: they are license copies, then runtime
  copies, then archives (and archives only when they are enabled).
\<close>

definition packaging :: "event \<Rightarrow> bool" where
  "packaging e \<longleftrightarrow> kind_of e = KCopyFile \<or> kind_of e = KZipOpen"

definition pk :: "(event \<Rightarrow> bool) \<Rightarrow> error option \<Rightarrow> history \<Rightarrow> bool" where
  "pk C r new \<longleftrightarrow> (\<forall>e\<in>set (filter packaging (effects new)). C e)"

definition packaging_order :: "config \<Rightarrow> error option \<Rightarrow> history \<Rightarrow> bool" where
  "packaging_order cfg r new \<longleftrightarrow>
     (\<exists>ls rs zs. filter packaging (effects new) = ls @ rs @ zs
        \<and> (\<forall>e\<in>set ls. license_copy e)
        \<and> (\<forall>e\<in>set rs. runtime_copy cfg e)
        \<and> (\<forall>e\<in>set zs. archive_write e \<and> ZIP_BUILD_OUTPUTS cfg))"

section \<open>Basic facts\<close>

lemma effects_append [simp]: "effects (h @ h') = effects h @ effects h'"
  by (induction h rule: effects.induct) simp_all

lemma entered_append [simp]: "entered (h @ h') = entered h @ entered h'"
  by (induction h rule: entered.induct) simp_all

section \<open>Workspace reuse\<close>

text \<open>
  Claim C8. For every architecture of the registry whose workspace is configured (the
  directory exists and holds \<open>Makefile\<close>), \<open>mk_build_dir\<close> without \<open>FORCE_MK\<close> returns
  normally and leaves nothing but its own entry mark in the history: no directory is
  made, no script written, no session spawned, so the effects are what they were. The
  configure step is skipped, and a second call right after the first does the same.
\<close>

theorem mk_build_dir_configured:
  assumes "map_of (ARCHS cfg) arch = Some build_path"
    and "check_build_dir os (effects h) build_path"
    and "\<not> FORCE_MK cfg"
  shows "mk_build_dir cfg os arch h = (Inr (), h @ [Enter ''mk_build_dir'' arch])
       \<and> effects (snd (mk_build_dir cfg os arch h)) = effects h
       \<and> py_bind (mk_build_dir cfg os arch) (\<lambda>_. mk_build_dir cfg os arch) h
           = (Inr (), h @ [Enter ''mk_build_dir'' arch, Enter ''mk_build_dir'' arch])"
proof -
  have once: "mk_build_dir cfg os arch k = (Inr (), k @ [Enter ''mk_build_dir'' arch])"
    if "effects k = effects h" for k
    using assms that
    by (simp add: mk_build_dir_def py_bind_def enter_def get_build_dir_def py_return_def ask_def)
  have first: "mk_build_dir cfg os arch h = (Inr (), h @ [Enter ''mk_build_dir'' arch])"
    by (rule once) simp
  have second: "mk_build_dir cfg os arch (h @ [Enter ''mk_build_dir'' arch])
      = (Inr (), (h @ [Enter ''mk_build_dir'' arch]) @ [Enter ''mk_build_dir'' arch])"
    by (rule once) simp
  show ?thesis
    using first second by (simp add: py_bind_def)
qed

theorem mk_build_dir_configured_witness:
  "mk_build_dir example_cfg os_configured ''arm64'' [] = (Inr (), [Enter ''mk_build_dir'' ''arm64''])
   \<and> effects (snd (mk_build_dir example_cfg os_configured ''arm64'' [])) = []"
  using mk_build_dir_configured
    [of example_cfg "''arm64''" "bslashed [''build-dist'', ''arm64'']" os_configured "[]"]
  by (simp add: ARCHS_def example_cfg_def os_configured_def example_os_def check_build_dir_def
      path_join_def splitdrive_def BSLASH_def)

section \<open>Command executor\<close>

lemma split_on_script_of:
  "\<forall>c\<in>set cmds. LF \<notin> set c \<Longrightarrow> split_on LF (script_of cmds) = cmds @ [[]]"
proof (induction cmds)
  case Nil
  show ?case by (simp add: script_of_def)
next
  case (Cons c cmds)
  have step: "LF \<notin> set w \<Longrightarrow> split_on LF (w @ LF # rest) = w # split_on LF rest" for w rest
    by (induction w) auto
  from Cons show ?case
    using step [of c "script_of cmds"] by (simp add: script_of_def)
qed

text \<open>
  Claim C10 says that the command executor never raises. The script is opened, written
  and closed before the \<open>try\<close>, so a script that cannot be written raises out of
  \<open>exec_cmds\<close>: here with a working directory that is read-only.
\<close>

theorem exec_cmds_counterexample:
  "exec_cmds os_readonly [''nmake install''] []
     = (Inl (OSError (WriteFile ''z3_tmp.cmd'' (''nmake install'' @ [LF]))), [])"
  by (simp add: exec_cmds_def py_bind_def perform_def os_readonly_def example_os_def
      cmd_file_def script_of_def)

text \<open>
  Claim C10, amended. \<open>exec_cmds\<close> raises exactly when the script cannot be written, and
  then nothing has happened. Otherwise it never raises: it writes the commands in
  order, each followed by a line feed (so the lines of the script are the commands,
  when no command holds a line feed itself), spawns one session, and returns that
  session's exit status, or 1 when spawning raised. The script is not removed.
\<close>

theorem exec_cmds_result:
  "exec_cmds os cmds h =
     (if os_raises os (effects h) (WriteFile cmd_file (script_of cmds))
      then (Inl (OSError (WriteFile cmd_file (script_of cmds))), h)
      else (Inr (case subprocess_call os (effects h @ [WriteFile cmd_file (script_of cmds)]) cmd_file of
                   None \<Rightarrow> 1 | Some rc \<Rightarrow> rc),
            h @ [Effect (WriteFile cmd_file (script_of cmds)),
                 Effect (Call cmd_file
                   (subprocess_call os (effects h @ [WriteFile cmd_file (script_of cmds)]) cmd_file))]))
   \<and> ((\<forall>c\<in>set cmds. LF \<notin> set c) \<longrightarrow> split_on LF (script_of cmds) = cmds @ [[]])"
  by (simp add: exec_cmds_def py_bind_def perform_def py_try_pass_def os_erase_def py_raise_def
      py_return_def Let_def split_on_script_of)

theorem exec_cmds_result_witness:
  "exec_cmds os_no_shell [''cd build'', ''nmake install''] []
     = (Inr 1, [Effect (WriteFile ''z3_tmp.cmd'' (''cd build'' @ [LF] @ ''nmake install'' @ [LF])),
                Effect (Call ''z3_tmp.cmd'' None)])
   \<and> split_on LF (script_of [''cd build'', ''nmake install'']) = [''cd build'', ''nmake install'', '''']"
  using exec_cmds_result [of os_no_shell "[''cd build'', ''nmake install'']" "[]"]
  by (simp add: os_no_shell_def example_os_def cmd_file_def script_of_def LF_def)

section \<open>Configure commands\<close>

text \<open>
  Claim C9 says that enabling any one optional component adds exactly two flags.
  Enabling the Java bindings adds four.
\<close>

theorem cmake_cmd_java_counterexample:
  "length (cmake_cmd (example_cfg\<lparr>JAVA_ENABLED := True\<rparr>) None)
     = length (cmake_cmd example_cfg None) + 4
   \<and> cmake_cmd (example_cfg\<lparr>JAVA_ENABLED := True\<rparr>) None
     = take 1 (cmake_cmd example_cfg None)
       @ ['' -DZ3_BUILD_JAVA_BINDINGS=ON'', '' -DZ3_INSTALL_JAVA_BINDINGS=ON'',
          '' -DZ3_JAVA_JAR_INSTALLDIR=java'', '' -DZ3_JAVA_JNI_LIB_INSTALLDIR=java'']
       @ drop 1 (cmake_cmd example_cfg None)"
  by (simp add: cmake_cmd_def example_cfg_def java_flags_def)

text \<open>
  Claim C9, amended. The configure commands are a function of the configuration, the
  workspace path, the architecture and the resolved revision (when one is requested).
  Enabling a component inserts its flags as one block and leaves every other flag where
  it was: two flags for .NET, four for Java, three for Python.
\<close>

theorem cmake_cmd_components:
  "(\<exists>pre post.
      cmake_cmd (cfg\<lparr>DOTNET_CORE_ENABLED := False\<rparr>) g = pre @ post
    \<and> cmake_cmd (cfg\<lparr>DOTNET_CORE_ENABLED := True\<rparr>) g = pre @ dotnet_flags @ post)
 \<and> (\<exists>pre post.
      cmake_cmd (cfg\<lparr>JAVA_ENABLED := False\<rparr>) g = pre @ post
    \<and> cmake_cmd (cfg\<lparr>JAVA_ENABLED := True\<rparr>) g = pre @ java_flags @ post)
 \<and> (\<exists>pre post.
      cmake_cmd (cfg\<lparr>PYTHON_ENABLED := False\<rparr>) g = pre @ post
    \<and> cmake_cmd (cfg\<lparr>PYTHON_ENABLED := True\<rparr>) g = pre @ python_flags @ post)
 \<and> length dotnet_flags = 2 \<and> length java_flags = 4 \<and> length python_flags = 3
 \<and> configure_cmds cfg build_path arch g
      = [''cd '' @ build_path,
         ''call '' @ [DQUOTE] @ vcvarsall_2022 @ [DQUOTE] @ '' ''
           @ (if arch = ''arm64'' then ''amd64_arm64'' else arch),
         concat (cmake_cmd cfg g)]"
proof -
  let ?d = "if DOTNET_CORE_ENABLED cfg then dotnet_flags else []"
  let ?j = "if JAVA_ENABLED cfg then java_flags else []"
  let ?p = "if PYTHON_ENABLED cfg then python_flags else []"
  obtain t where t: "\<And>c. cmake_cmd c g =
      [''cmake -S .''] @ (if DOTNET_CORE_ENABLED c then dotnet_flags else [])
        @ (if JAVA_ENABLED c then java_flags else [])
        @ (if PYTHON_ENABLED c then python_flags else []) @ t"
    by (simp add: cmake_cmd_def)
  have d: "cmake_cmd (cfg\<lparr>DOTNET_CORE_ENABLED := False\<rparr>) g = [''cmake -S .''] @ (?j @ ?p @ t)
         \<and> cmake_cmd (cfg\<lparr>DOTNET_CORE_ENABLED := True\<rparr>) g
             = [''cmake -S .''] @ dotnet_flags @ (?j @ ?p @ t)"
    by (simp add: t)
  have j: "cmake_cmd (cfg\<lparr>JAVA_ENABLED := False\<rparr>) g = ([''cmake -S .''] @ ?d) @ (?p @ t)
         \<and> cmake_cmd (cfg\<lparr>JAVA_ENABLED := True\<rparr>) g
             = ([''cmake -S .''] @ ?d) @ java_flags @ (?p @ t)"
    by (simp add: t)
  have p: "cmake_cmd (cfg\<lparr>PYTHON_ENABLED := False\<rparr>) g = ([''cmake -S .''] @ ?d @ ?j) @ t
         \<and> cmake_cmd (cfg\<lparr>PYTHON_ENABLED := True\<rparr>) g
             = ([''cmake -S .''] @ ?d @ ?j) @ python_flags @ t"
    by (simp add: t)
  have n: "length dotnet_flags = 2 \<and> length java_flags = 4 \<and> length python_flags = 3"
    by (simp add: dotnet_flags_def java_flags_def python_flags_def)
  show ?thesis
    using d j p n by (simp only: configure_cmds_def) blast
qed

theorem cmake_cmd_components_witness:
  "cmake_cmd (example_cfg\<lparr>PYTHON_ENABLED := True\<rparr>) (Some ''0123456789ab'')
     = [''cmake -S .'', '' -DZ3_BUILD_PYTHON_BINDINGS=ON'', '' -DZ3_INSTALL_PYTHON_BINDINGS=ON'',
        '' -DCMAKE_INSTALL_PYTHON_PKG_DIR=python'', '' -DGIT_HASH=0123456789ab'',
        '' -DZ3_USE_LIB_GMP=OFF'', '' -DZ3_BUILD_LIBZ3_SHARED=ON'',
        '' -DCMAKE_BUILD_TYPE=RelWithDebInfo'', '' -DCMAKE_INSTALL_PREFIX=dist'',
        '' -G '' @ [DQUOTE] @ ''NMake Makefiles'' @ [DQUOTE], '' ../..'' @ [LF]]
   \<and> length python_flags = 3"
  using cmake_cmd_components [of example_cfg "Some ''0123456789ab''" "''build-dist''" "''x64''"]
  by (simp add: cmake_cmd_def example_cfg_def python_flags_def DIST_DIR_def)

section \<open>Runtime dependency locator\<close>

lemma str_in_sublist: "str_in sub s \<longleftrightarrow> sublist sub s"
  by (induction s) (simp_all add: sublist_Cons_right)

lemma pat_match_name_pattern: "pat_match pre f \<longleftrightarrow> name_pattern pre f"
proof
  assume m: "pat_match pre f"
  then obtain t where t: "f = pre @ t"
    by (auto simp: pat_match_def prefix_def)
  from m t have "sublist ''.dll'' (takeWhile (\<lambda>c. c \<noteq> LF) t)"
    by (simp add: pat_match_def str_in_sublist)
  then obtain v w where vw: "takeWhile (\<lambda>c. c \<noteq> LF) t = v @ ''.dll'' @ w"
    by (auto simp: sublist_def)
  have "set v \<subseteq> set (takeWhile (\<lambda>c. c \<noteq> LF) t)"
    by (auto simp: vw)
  then have nolf: "LF \<notin> set v"
    by (auto dest: set_takeWhileD)
  have "t = (v @ ''.dll'' @ w) @ dropWhile (\<lambda>c. c \<noteq> LF) t"
    using takeWhile_dropWhile_id [of "\<lambda>c. c \<noteq> LF" t] by (simp only: vw)
  then have "f = pre @ v @ ''.dll'' @ (w @ dropWhile (\<lambda>c. c \<noteq> LF) t)"
    using t by simp
  with nolf show "name_pattern pre f"
    unfolding name_pattern_def by blast
next
  assume "name_pattern pre f"
  then obtain v rest where f: "f = pre @ v @ ''.dll'' @ rest" and nolf: "LF \<notin> set v"
    by (auto simp: name_pattern_def)
  have "takeWhile (\<lambda>c. c \<noteq> LF) (v @ ''.dll'' @ rest)
      = v @ ''.dll'' @ takeWhile (\<lambda>c. c \<noteq> LF) rest"
  proof -
    have "\<And>x. x \<in> set v \<Longrightarrow> x \<noteq> LF"
      using nolf by blast
    then have "takeWhile (\<lambda>c. c \<noteq> LF) (v @ ''.dll'' @ rest)
        = v @ takeWhile (\<lambda>c. c \<noteq> LF) (''.dll'' @ rest)"
      by (rule takeWhile_append2)
    then show ?thesis
      by (simp add: LF_def)
  qed
  moreover have "sublist ''.dll'' (v @ ''.dll'' @ takeWhile (\<lambda>c. c \<noteq> LF) rest)"
    by (rule sublist_appendI)
  ultimately show "pat_match pre f"
    by (simp add: pat_match_def f str_in_sublist)
qed

lemma check_root_spec:
  "check_root platform root \<longleftrightarrow>
     sublist platform root \<and> (sublist ''CRT'' root \<or> sublist ''MP'' root)
     \<and> \<not> sublist ''onecore'' root \<and> \<not> sublist ''debug'' root"
  by (simp add: check_root_def str_in_sublist)

lemma set_pats_loop:
  "set (concat (map (\<lambda>pat.
          if pat_match pat f then
            (let fname = path_join root f in if \<not> isdir fname then [fname] else [])
          else []) VS_RUNTIME_PATS))
   = (if (name_pattern ''vcrun'' f \<or> name_pattern ''msvcp'' f
          \<or> name_pattern ''msvcr'' f \<or> name_pattern ''vcomp'' f)
         \<and> \<not> isdir (path_join root f)
      then {path_join root f} else {})"
  by (auto simp: VS_RUNTIME_PATS_def pat_match_name_pattern Let_def)

lemma set_file_case:
  "set (if fnmatch_dll f \<and> check_root platform root then
          concat (map (\<lambda>pat.
            if pat_match pat f then
              (let fname = path_join root f in if \<not> isdir fname then [fname] else [])
            else []) VS_RUNTIME_PATS)
        else [])
   = (if runtime_file_spec platform root f \<and> \<not> isdir (path_join root f)
      then {path_join root f} else {})"
  unfolding runtime_file_spec_def fnmatch_dll_def check_root_spec
  by (simp only: set_pats_loop if_distrib [of set] list.set) simp

lemma set_vs_runtime_files:
  "set (vs_runtime_files os es platform p) =
     {path_join root f | root dirs files f.
        (root, dirs, files) \<in> set (os_walk os es p) \<and> f \<in> set files
        \<and> runtime_file_spec platform root f \<and> \<not> os_path_isdir os es (path_join root f)}"
  (is "?L = ?R")
proof -
  let ?M = "\<Union>t\<in>set (os_walk os es p). \<Union>f\<in>set (snd (snd t)).
       (if runtime_file_spec platform (fst t) f \<and> \<not> os_path_isdir os es (path_join (fst t) f)
        then {path_join (fst t) f} else {})"
  have "?L = ?M"
    unfolding vs_runtime_files_def
    by (simp only: set_concat set_map image_image split_beta set_file_case)
  also have "?M = ?R"
  proof (intro equalityI subsetI)
    fix x
    assume "x \<in> ?M"
    then obtain t f where tf: "t \<in> set (os_walk os es p)" "x = path_join (fst t) f"
      "f \<in> set (snd (snd t))" "runtime_file_spec platform (fst t) f"
      "\<not> os_path_isdir os es (path_join (fst t) f)"
      by (auto split: if_splits)
    obtain root dirs files where "t = (root, dirs, files)"
      by (cases t)
    with tf show "x \<in> ?R"
      by auto
  next
    fix x
    assume "x \<in> ?R"
    then obtain root dirs files f where "(root, dirs, files) \<in> set (os_walk os es p)"
      "x = path_join root f" "f \<in> set files" "runtime_file_spec platform root f"
      "\<not> os_path_isdir os es (path_join root f)"
      by blast
    then show "x \<in> ?M"
      by force
  qed
  finally show ?thesis .
qed

lemma py_for_perform_error:
  "fst (py_for (\<lambda>f. perform os (ev f)) xs h) \<noteq> Inl (MKException m)"
  by (induction xs arbitrary: h) (auto simp: perform_def)

lemma cp_vs_runtime_not_found:
  assumes "os_environ os ''VCINSTALLDIR'' = Some vcdir"
  shows "fst (cp_vs_runtime cfg os arch h) = Inl (MKException ''Did not find any runtime files to include'')
     \<longleftrightarrow> vs_runtime_files os (effects h) arch (vcdir @ ''redist'') = []"
proof (cases "vs_runtime_files os (effects h) arch (vcdir @ ''redist'') = []")
  case True
  with assms show ?thesis
    by (simp add: cp_vs_runtime_def py_bind_def enter_def py_return_def py_raise_def ask_def)
next
  case False
  with assms show ?thesis
    using py_for_perform_error
      [of os "\<lambda>f. CopyFile f (path_join (path_join d DIST_DIR) ''bin'')" _
          "h @ [Enter ''cp_vs_runtime'' arch]" for d]
    by (auto simp: cp_vs_runtime_def py_bind_def enter_def py_return_def py_raise_def ask_def
        get_build_dir_def split: option.splits)
qed


text \<open>
  Claim C6. For every architecture and toolchain tree, the files that \<open>cp_vs_runtime\<close>
  collects are exactly the files of the walk that the specification accepts and that
  are not directories; and, with \<open>VCINSTALLDIR\<close> set, it raises "Did not find any runtime
  files to include" exactly when there is none. On a tree with x64 libraries only,
  \<open>vcruntime140.dll\<close> under the x64 CRT directory is found for x64, its copy under a
  \<open>debug\<close> directory is not, and the arm64 query fails.
\<close>

theorem runtime_locator:
  "set (vs_runtime_files os es arch p) =
     {path_join root f | root dirs files f.
        (root, dirs, files) \<in> set (os_walk os es p) \<and> f \<in> set files
        \<and> runtime_file_spec arch root f \<and> \<not> os_path_isdir os es (path_join root f)}
   \<and> (os_environ os ''VCINSTALLDIR'' = Some vcdir \<longrightarrow>
        (fst (cp_vs_runtime cfg os arch h)
           = Inl (MKException ''Did not find any runtime files to include'')
         \<longleftrightarrow> vs_runtime_files os (effects h) arch (vcdir @ ''redist'') = []))"
  using set_vs_runtime_files [of os es arch p] cp_vs_runtime_not_found [of os vcdir cfg arch h]
  by blast

theorem runtime_locator_witness:
  "vs_runtime_files os_configured [] ''x64'' (example_vcdir @ ''redist'')
     = [crt_dir [''x64'', ''Microsoft.VC143.CRT'', ''vcruntime140.dll'']]
   \<and> vs_runtime_files os_configured [] ''arm64'' (example_vcdir @ ''redist'') = []
   \<and> fst (cp_vs_runtime example_cfg os_configured ''arm64'' [])
       = Inl (MKException ''Did not find any runtime files to include'')"
proof -
  have x64: "vs_runtime_files os_configured [] ''x64'' (example_vcdir @ ''redist'')
     = [crt_dir [''x64'', ''Microsoft.VC143.CRT'', ''vcruntime140.dll'']]"
    by code_simp
  have arm64: "vs_runtime_files os_configured [] ''arm64'' (example_vcdir @ ''redist'') = []"
    by code_simp
  have env: "os_environ os_configured ''VCINSTALLDIR'' = Some example_vcdir"
    by (simp add: os_configured_def example_os_def)
  have "fst (cp_vs_runtime example_cfg os_configured ''arm64'' [])
       = Inl (MKException ''Did not find any runtime files to include'')"
    using runtime_locator [of os_configured "[]" "''arm64''" "example_vcdir @ ''redist''"
        example_vcdir example_cfg "[]"] env arm64
    by simp
  with x64 arm64 show ?thesis
    by simp
qed

section \<open>How the functions extend the history\<close>

lemma raised_simps [simp]: "raised (Inl e) = Some e" "raised (Inr x) = None"
  by (simp_all add: raised_def)

lemma obeysD:
  assumes "obeys P m" and "m h = (r, h')"
  shows "\<exists>new. h' = h @ new \<and> P (raised r) new"
  using assms unfolding obeys_def by (metis fst_conv snd_conv)

lemma obeys_mono:
  assumes "obeys P m" and "\<And>r new. P r new \<Longrightarrow> Q r new"
  shows "obeys Q m"
  using assms unfolding obeys_def by blast

lemma obeys_return: "P None [] \<Longrightarrow> obeys P (py_return x)"
  by (simp add: obeys_def py_return_def)

lemma obeys_raise: "P (Some e) [] \<Longrightarrow> obeys P (py_raise e)"
  by (simp add: obeys_def py_raise_def)

lemma obeys_enter: "P None [Enter f a] \<Longrightarrow> obeys P (enter f a)"
  by (simp add: obeys_def enter_def)

lemma obeys_perform:
  "P None [Effect ev] \<Longrightarrow> P (Some (OSError ev)) [] \<Longrightarrow> obeys P (perform os ev)"
  by (simp add: obeys_def perform_def)

lemma obeys_seq:
  assumes m: "obeys P m" and f: "\<And>x. obeys Q (f x)"
    and fail: "\<And>e n. P (Some e) n \<Longrightarrow> R (Some e) n"
    and app: "\<And>r n1 n2. P None n1 \<Longrightarrow> Q r n2 \<Longrightarrow> R r (n1 @ n2)"
  shows "obeys R (py_bind m f)"
  unfolding obeys_def
proof
  fix h
  obtain r1 h1 where mh: "m h = (r1, h1)"
    by (cases "m h")
  from obeysD [OF m mh] obtain n1 where n1: "h1 = h @ n1" "P (raised r1) n1"
    by blast
  show "\<exists>new. snd (py_bind m f h) = h @ new \<and> R (raised (fst (py_bind m f h))) new"
  proof (cases r1)
    case (Inl e)
    with mh n1 fail show ?thesis
      by (simp add: py_bind_def)
  next
    case (Inr x)
    obtain r2 h2 where fh: "f x h1 = (r2, h2)"
      by (cases "f x h1")
    from obeysD [OF f fh] obtain n2 where n2: "h2 = h1 @ n2" "Q (raised r2) n2"
      by blast
    from Inr n1 n2 have "R (raised r2) (n1 @ n2)"
      by (simp add: app)
    with Inr mh fh n1 n2 show ?thesis
      by (simp add: py_bind_def)
  qed
qed

lemma obeys_bind:
  assumes "obeys P m" and "\<And>x. obeys P (f x)"
    and "\<And>r n1 n2. P None n1 \<Longrightarrow> P r n2 \<Longrightarrow> P r (n1 @ n2)"
  shows "obeys P (py_bind m f)"
  using assms(1,2) by (rule obeys_seq) (simp_all add: assms(3))

lemma obeys_for:
  assumes f: "\<And>x. x \<in> set xs \<Longrightarrow> obeys P (f x)"
    and nil: "P None []"
    and app: "\<And>r n1 n2. P None n1 \<Longrightarrow> P r n2 \<Longrightarrow> P r (n1 @ n2)"
  shows "obeys P (py_for f xs)"
  using f
proof (induction xs)
  case Nil
  show ?case
    by (simp add: obeys_def nil)
next
  case (Cons x xs)
  have "py_for f (x # xs) = py_bind (f x) (\<lambda>u. py_for f xs)"
    by (rule ext) (simp add: py_bind_def)
  moreover have "obeys P (py_bind (f x) (\<lambda>u. py_for f xs))"
    by (rule obeys_bind) (simp_all add: Cons app)
  ultimately show ?case
    by simp
qed

lemma obeys_try_pass:
  assumes "obeys P m" and "\<And>r new. P r new \<Longrightarrow> Q None new"
  shows "obeys Q (py_try_pass m)"
  using assms unfolding obeys_def py_try_pass_def by (metis fst_conv raised_simps(2) snd_conv)

lemma obeys_ask: "P None [] \<Longrightarrow> obeys P (ask q)"
  by (simp add: obeys_def ask_def)

lemma effs_nil: "effs K r []"
  by (simp add: effs_def)

lemma effs_one: "K e \<Longrightarrow> effs K r [Effect e]"
  unfolding effs_def by (rule exI [of _ "[e]"]) simp

lemma effs_append: "effs K r n1 \<Longrightarrow> effs K r' n2 \<Longrightarrow> effs K r'' (n1 @ n2)"
  unfolding effs_def
  by (metis Un_iff map_append set_append)

lemma effs_weaken: "effs K r new \<Longrightarrow> (\<And>e. K e \<Longrightarrow> K' e) \<Longrightarrow> effs K' r' new"
  unfolding effs_def by blast

lemma effs_bind:
  assumes "obeys (effs K) m" and "\<And>x. obeys (effs K) (f x)"
  shows "obeys (effs K) (py_bind m f)"
  using assms by (rule obeys_bind) (rule effs_append)

lemma effs_for:
  assumes "\<And>x. x \<in> set xs \<Longrightarrow> obeys (effs K) (f x)"
  shows "obeys (effs K) (py_for f xs)"
  using assms by (rule obeys_for) (auto intro: effs_nil effs_append)

lemma effs_perform: "K ev \<Longrightarrow> obeys (effs K) (perform os ev)"
  by (rule obeys_perform) (auto intro: effs_nil effs_one)

lemma effs_return: "obeys (effs K) (py_return x)"
  by (rule obeys_return) (rule effs_nil)

lemma effs_raise: "obeys (effs K) (py_raise e)"
  by (rule obeys_raise) (rule effs_nil)

lemma effs_ask: "obeys (effs K) (ask q)"
  by (rule obeys_ask) (rule effs_nil)

lemma effs_try_pass: "obeys (effs K) m \<Longrightarrow> obeys (effs K) (py_try_pass m)"
  by (erule obeys_try_pass) (simp add: effs_def)

lemma effs_mono: "obeys (effs K) m \<Longrightarrow> (\<And>e. K e \<Longrightarrow> K' e) \<Longrightarrow> obeys (effs K') m"
  by (erule obeys_mono) (erule effs_weaken)

lemma stageI:
  assumes "obeys (effs K) body"
  shows "obeys (stage f a K) (py_bind (enter f a) (\<lambda>u. body))"
proof (rule obeys_seq [where P = "\<lambda>r new. new = [Enter f a]" and Q = "effs K"])
  show "obeys (\<lambda>r new. new = [Enter f a]) (enter f a)"
    by (rule obeys_enter) simp
  show "\<And>x. obeys (effs K) body"
    by (rule assms)
  show "\<And>e n. n = [Enter f a] \<Longrightarrow> stage f a K (Some e) n"
    unfolding stage_def by (intro exI [of _ "[]"]) simp
  show "\<And>r n1 n2. n1 = [Enter f a] \<Longrightarrow> effs K r n2 \<Longrightarrow> stage f a K r (n1 @ n2)"
    unfolding stage_def effs_def by auto
qed

lemma check_output_effs: "obeys (effs (\<lambda>e. kind_of e = KPopen)) (check_output os cmd)"
  unfolding obeys_def check_output_def
  by (auto split: option.splits intro: effs_one)

lemma get_git_hash_effs: "obeys (effs (\<lambda>e. kind_of e = KPopen)) (get_git_hash os)"
proof -
  let ?q = "py_bind (check_output os git_branch_cmd)
              (\<lambda>branch. check_output os (git_show_ref_cmd branch))"
  have q: "obeys (effs (\<lambda>e. kind_of e = KPopen)) ?q"
    by (intro effs_bind check_output_effs)
  show ?thesis
    unfolding obeys_def
  proof
    fix h
    obtain r h' where qh: "?q h = (r, h')"
      by (cases "?q h")
    from obeysD [OF q qh] obtain new where "h' = h @ new" "effs (\<lambda>e. kind_of e = KPopen) (raised r) new"
      by blast
    then show "\<exists>new. snd (get_git_hash os h) = h @ new
        \<and> effs (\<lambda>e. kind_of e = KPopen) (raised (fst (get_git_hash os h))) new"
      using qh by (auto simp: get_git_hash_def effs_def split: sum.splits list.splits)
  qed
qed

lemma get_z3_name_effs: "obeys (effs (\<lambda>e. kind_of e = KPopen)) (get_z3_name cfg os arch)"
  unfolding get_z3_name_def
  by (auto intro!: effs_bind effs_return get_git_hash_effs)

lemma mk_dir_effs: "obeys (effs (\<lambda>e. kind_of e = KMakeDirs)) (mk_dir os d)"
  unfolding mk_dir_def
  by (auto intro!: effs_bind effs_ask effs_perform effs_return)

lemma get_build_dir_effs: "obeys (effs K) (get_build_dir cfg arch)"
  unfolding get_build_dir_def
  by (auto split: option.splits intro: effs_return effs_raise)

lemma exec_cmds_eq:
  "exec_cmds os cmds h =
     (if os_raises os (effects h) (WriteFile cmd_file (script_of cmds))
      then (Inl (OSError (WriteFile cmd_file (script_of cmds))), h)
      else (Inr (case subprocess_call os (effects h @ [WriteFile cmd_file (script_of cmds)]) cmd_file of
                   None \<Rightarrow> 1 | Some rc \<Rightarrow> rc),
            h @ [Effect (WriteFile cmd_file (script_of cmds)),
                 Effect (Call cmd_file
                   (subprocess_call os (effects h @ [WriteFile cmd_file (script_of cmds)]) cmd_file))]))"
  by (simp add: exec_cmds_def py_bind_def perform_def py_try_pass_def os_erase_def py_raise_def
      py_return_def Let_def)

lemma exec_cmds_effs: "obeys (effs (\<lambda>e. kind_of e = KWriteFile \<or> kind_of e = KCall)) (exec_cmds os cmds)"
  unfolding obeys_def exec_cmds_eq effs_def
proof
  fix h
  let ?w = "WriteFile cmd_file (script_of cmds)"
  let ?c = "Call cmd_file (subprocess_call os (effects h @ [?w]) cmd_file)"
  show "\<exists>new. snd (if os_raises os (effects h) ?w then (Inl (OSError ?w), h)
           else (Inr (case subprocess_call os (effects h @ [?w]) cmd_file of None \<Rightarrow> 1 | Some rc \<Rightarrow> rc),
                 h @ [Effect ?w, Effect ?c])) = h @ new
       \<and> (\<exists>es. new = map Effect es \<and> (\<forall>e\<in>set es. kind_of e = KWriteFile \<or> kind_of e = KCall))"
  proof (cases "os_raises os (effects h) ?w")
    case True
    then show ?thesis by simp
  next
    case False
    then show ?thesis
      by (intro exI [of _ "[Effect ?w, Effect ?c]"] conjI exI [of _ "[?w, ?c]"]) simp_all
  qed
qed

lemma mk_build_dir_stage:
  "obeys (stage ''mk_build_dir'' arch
      (\<lambda>e. kind_of e = KMakeDirs \<or> kind_of e = KPopen \<or> kind_of e = KWriteFile \<or> kind_of e = KCall))
     (mk_build_dir cfg os arch)"
  unfolding mk_build_dir_def
  by (auto intro!: stageI effs_bind effs_return effs_raise effs_ask get_build_dir_effs
      effs_mono [OF mk_dir_effs] effs_mono [OF get_git_hash_effs] effs_mono [OF exec_cmds_effs])

lemma mk_z3_stage:
  "obeys (stage ''mk_z3'' arch (\<lambda>e. kind_of e = KWriteFile \<or> kind_of e = KCall)) (mk_z3 cfg os arch)"
  unfolding mk_z3_def
  by (auto intro!: stageI effs_bind effs_return effs_raise get_build_dir_effs exec_cmds_effs)

lemma cp_license_stage:
  "obeys (stage ''cp_license'' arch (\<lambda>e. kind_of e = KPopen \<or> license_copy e)) (cp_license cfg os arch)"
  unfolding cp_license_def
  by (auto intro!: stageI effs_bind effs_perform effs_mono [OF get_z3_name_effs] simp: license_copy_def)

lemma suffix_path_join: "suffix q (path_join p q)"
  by (auto simp: path_join_def suffix_def split: prod.splits)

lemma located_are_dlls:
  assumes "x \<in> set (vs_runtime_files os es platform p)"
  shows "fnmatch_dll x"
proof -
  from assms obtain root f where x: "x = path_join root f" and "runtime_file_spec platform root f"
    unfolding set_vs_runtime_files by blast
  then have "suffix ''.dll'' (map ascii_lower f)"
    by (simp add: runtime_file_spec_def)
  moreover have "suffix (map ascii_lower f) (map ascii_lower x)"
    unfolding x by (rule map_mono_suffix) (rule suffix_path_join)
  ultimately show ?thesis
    unfolding fnmatch_dll_def by (rule suffix_order.trans)
qed

lemma obeys_ask_bind:
  assumes "\<And>es. obeys P (f (q es))"
  shows "obeys P (py_bind (ask q) f)"
  using assms by (simp add: obeys_def py_bind_def ask_def)

lemma copy_loop_effs:
  assumes "\<forall>f\<in>set found. fnmatch_dll f"
  shows "obeys (effs (runtime_copy cfg))
     (py_bind (get_build_dir cfg arch) (\<lambda>build_dir.
        py_for (\<lambda>f. perform os (CopyFile f (path_join (path_join build_dir DIST_DIR) ''bin''))) found))"
proof (cases "map_of (ARCHS cfg) arch")
  case None
  then show ?thesis
    by (simp add: get_build_dir_def obeys_def py_bind_def py_raise_def effs_nil)
next
  case (Some d)
  have "obeys (effs (runtime_copy cfg))
      (py_for (\<lambda>f. perform os (CopyFile f (path_join (path_join d DIST_DIR) ''bin''))) found)"
    using Some assms by (intro effs_for effs_perform) (auto simp: runtime_copy_def)
  with Some show ?thesis
    by (simp add: get_build_dir_def py_bind_def py_return_def obeys_def)
qed

lemma cp_vs_runtime_stage:
  "obeys (stage ''cp_vs_runtime'' arch (runtime_copy cfg)) (cp_vs_runtime cfg os arch)"
proof -
  have found: "obeys (effs (runtime_copy cfg))
      (if vs_runtime_files os es arch p = []
       then py_raise (MKException ''Did not find any runtime files to include'')
       else py_bind (get_build_dir cfg arch) (\<lambda>build_dir.
              py_for (\<lambda>f. perform os (CopyFile f (path_join (path_join build_dir DIST_DIR) ''bin'')))
                (vs_runtime_files os es arch p)))" for es p
    using copy_loop_effs [of "vs_runtime_files os es arch p" cfg arch os]
    by (simp add: effs_raise located_are_dlls)
  have env: "obeys (effs (runtime_copy cfg))
      (case os_environ os ''VCINSTALLDIR'' of
         None \<Rightarrow> py_raise (KeyError ''VCINSTALLDIR'')
       | Some vcdir \<Rightarrow> py_return vcdir)"
    by (simp add: effs_raise effs_return split: option.splits)
  show ?thesis
    unfolding cp_vs_runtime_def
    by (intro stageI effs_bind env obeys_ask_bind found)
qed

lemma mk_zip_stage:
  "obeys (stage ''mk_zip'' arch (\<lambda>e. kind_of e = KPopen \<or> kind_of e = KChdir \<or> archive_write e))
     (mk_zip cfg os arch)"
  unfolding mk_zip_def mk_zip_body_def
  by (auto intro!: stageI effs_bind effs_ask effs_try_pass effs_perform effs_raise
      get_build_dir_effs effs_mono [OF get_z3_name_effs] simp: archive_write_def)

section \<open>Toolchain failures\<close>

lemma fail_stop_quiet: "\<forall>s\<in>set new. \<not> failed_call s \<Longrightarrow> fail_stop r new"
  unfolding fail_stop_def by auto

lemma fail_stop_append:
  assumes "fail_stop None n1" and "fail_stop r n2"
  shows "fail_stop r (n1 @ n2)"
  unfolding fail_stop_def
proof (intro allI impI)
  fix pre s post
  assume eq: "n1 @ n2 = pre @ s # post" and bad: "failed_call s"
  from eq consider (left) us where "n1 = pre @ s # us" | (right) us where "n2 = us @ s # post"
    by (auto simp: append_eq_append_conv2 append_eq_Cons_conv Cons_eq_append_conv)
  then show "post = [] \<and> (\<exists>e. r = Some e \<and> toolchain_error e)"
  proof cases
    case left
    with assms(1) bad show ?thesis
      unfolding fail_stop_def by blast
  next
    case right
    with assms(2) bad show ?thesis
      unfolding fail_stop_def by blast
  qed
qed

lemma effs_fail_stop:
  assumes "effs K r new" and "\<And>e. K e \<Longrightarrow> kind_of e \<noteq> KCall"
  shows "fail_stop r' new"
proof (rule fail_stop_quiet)
  from assms obtain es where "new = map Effect es" "\<forall>e\<in>set es. kind_of e \<noteq> KCall"
    unfolding effs_def by blast
  then show "\<forall>s\<in>set new. \<not> failed_call s"
    by (force simp: failed_call_def)
qed

lemma stage_fail_stop:
  assumes "stage f a K r new" and "\<And>e. K e \<Longrightarrow> kind_of e \<noteq> KCall"
  shows "fail_stop r' new"
proof (rule fail_stop_quiet)
  from assms obtain es where "new = Enter f a # map Effect es" "\<forall>e\<in>set es. kind_of e \<noteq> KCall"
    unfolding stage_def by blast
  then show "\<forall>s\<in>set new. \<not> failed_call s"
    by (force simp: failed_call_def)
qed

lemma exec_check_fail_stop:
  assumes "toolchain_error (MKException msg)"
  shows "obeys fail_stop
     (py_bind (exec_cmds os cmds) (\<lambda>res.
        if res \<noteq> 0 then py_raise (MKException msg) else py_return ()))"
  unfolding obeys_def
proof
  fix h
  let ?w = "WriteFile cmd_file (script_of cmds)"
  let ?st = "subprocess_call os (effects h @ [?w]) cmd_file"
  let ?m = "py_bind (exec_cmds os cmds) (\<lambda>res.
        if res \<noteq> 0 then py_raise (MKException msg) else py_return ())"
  show "\<exists>new. snd (?m h) = h @ new \<and> fail_stop (raised (fst (?m h))) new"
  proof (cases "os_raises os (effects h) ?w")
    case True
    then have "?m h = (Inl (OSError ?w), h)"
      by (simp add: py_bind_def exec_cmds_eq)
    then show ?thesis
      by (simp add: fail_stop_def)
  next
    case False
    show ?thesis
    proof (cases "?st = Some 0")
      case True
      with False have "?m h = (Inr (), h @ [Effect ?w, Effect (Call cmd_file (Some 0))])"
        by (simp add: py_bind_def exec_cmds_eq py_return_def)
      moreover have "fail_stop None [Effect ?w, Effect (Call cmd_file (Some 0))]"
        by (rule fail_stop_quiet) (simp add: failed_call_def)
      ultimately show ?thesis
        by simp
    next
      case bad: False
      then have "(case ?st of None \<Rightarrow> 1 | Some rc \<Rightarrow> rc) \<noteq> (0::int)"
        by (cases ?st) simp_all
      with False have run: "?m h = (Inl (MKException msg), h @ [Effect ?w, Effect (Call cmd_file ?st)])"
        by (simp add: py_bind_def exec_cmds_eq py_raise_def)
      have "fail_stop (Some (MKException msg)) [Effect ?w, Effect (Call cmd_file ?st)]"
        unfolding fail_stop_def using assms
        by (auto simp: append_eq_Cons_conv Cons_eq_append_conv failed_call_def)
      with run show ?thesis
        by simp
    qed
  qed
qed

lemma fail_stop_bind:
  assumes "obeys fail_stop m" and "\<And>x. obeys fail_stop (f x)"
  shows "obeys fail_stop (py_bind m f)"
  using assms by (rule obeys_bind) (rule fail_stop_append)

lemma fail_stop_for:
  assumes "\<And>x. obeys fail_stop (f x)"
  shows "obeys fail_stop (py_for f xs)"
proof (rule obeys_for)
  show "\<And>x. obeys fail_stop (f x)"
    by (rule assms)
  show "fail_stop None []"
    by (simp add: fail_stop_def)
  show "\<And>r n1 n2. fail_stop None n1 \<Longrightarrow> fail_stop r n2 \<Longrightarrow> fail_stop r (n1 @ n2)"
    by (rule fail_stop_append)
qed

lemma fail_stop_quiet_effs:
  assumes "obeys (effs K) m" and "\<And>e. K e \<Longrightarrow> kind_of e \<noteq> KCall"
  shows "obeys fail_stop m"
  using assms(1) by (rule obeys_mono) (erule effs_fail_stop, rule assms(2))

lemma fail_stop_quiet_stage:
  assumes "obeys (stage f a K) m" and "\<And>e. K e \<Longrightarrow> kind_of e \<noteq> KCall"
  shows "obeys fail_stop m"
  using assms(1) by (rule obeys_mono) (erule stage_fail_stop, rule assms(2))

lemma fail_stop_enter: "obeys fail_stop (enter f a)"
  by (rule obeys_enter) (simp add: fail_stop_quiet failed_call_def)

lemma fail_stop_return: "obeys fail_stop (py_return x)"
  by (rule obeys_return) (simp add: fail_stop_def)

lemma mk_z3_fail_stop: "obeys fail_stop (mk_z3 cfg os arch)"
  unfolding mk_z3_def
  by (intro fail_stop_bind fail_stop_enter exec_check_fail_stop
      fail_stop_quiet_effs [OF get_build_dir_effs [of "\<lambda>e. False"]])
    (simp_all add: toolchain_error_def)

lemma mk_build_dir_fail_stop: "obeys fail_stop (mk_build_dir cfg os arch)"
proof -
  have git: "obeys fail_stop
      (if GIT_HASH cfg then py_bind (get_git_hash os) (\<lambda>g. py_return (Some g)) else py_return None)"
  proof (cases "GIT_HASH cfg")
    case True
    have "obeys fail_stop (py_bind (get_git_hash os) (\<lambda>g. py_return (Some g)))"
      by (intro fail_stop_bind fail_stop_return fail_stop_quiet_effs [OF get_git_hash_effs]) simp
    with True show ?thesis by simp
  next
    case False
    then show ?thesis by (simp add: fail_stop_return)
  qed
  have configure: "obeys fail_stop
         (py_bind (mk_dir os build_path) (\<lambda>_.
         py_bind (if GIT_HASH cfg
                  then py_bind (get_git_hash os) (\<lambda>g. py_return (Some g))
                  else py_return None) (\<lambda>git_hash.
         py_bind (exec_cmds os (configure_cmds cfg build_path arch git_hash)) (\<lambda>res.
           if res \<noteq> 0 then py_raise (MKException ''failed to run commands'')
           else py_return ()))))" for build_path
    by (intro fail_stop_bind git exec_check_fail_stop fail_stop_quiet_effs [OF mk_dir_effs])
      (simp_all add: toolchain_error_def)
  have body: "obeys fail_stop
      (if \<not> configured \<or> FORCE_MK cfg then
         py_bind (mk_dir os build_path) (\<lambda>_.
         py_bind (if GIT_HASH cfg
                  then py_bind (get_git_hash os) (\<lambda>g. py_return (Some g))
                  else py_return None) (\<lambda>git_hash.
         py_bind (exec_cmds os (configure_cmds cfg build_path arch git_hash)) (\<lambda>res.
           if res \<noteq> 0 then py_raise (MKException ''failed to run commands'')
           else py_return ())))
       else py_return ())" for configured build_path
    using configure [of build_path] by (simp add: fail_stop_return)
  show ?thesis
    unfolding mk_build_dir_def
    by (intro fail_stop_bind fail_stop_enter body
        fail_stop_quiet_effs [OF get_build_dir_effs [of "\<lambda>e. False"]]
        fail_stop_quiet_effs [OF effs_ask [of "\<lambda>e. False"]]) simp_all
qed

lemma build_for_arch_fail_stop: "obeys fail_stop (build_for_arch cfg os arch)"
  unfolding build_for_arch_def
  by (auto intro!: fail_stop_bind fail_stop_return mk_build_dir_fail_stop mk_z3_fail_stop
      fail_stop_quiet_stage [OF cp_license_stage] fail_stop_quiet_stage [OF cp_vs_runtime_stage]
      fail_stop_quiet_stage [OF mk_zip_stage]
      simp: license_copy_def runtime_copy_def archive_write_def)

lemma main_fail_stop: "obeys fail_stop (main cfg os)"
  unfolding main_def mk_build_dirs_def mk_z3s_def cp_licenses_def cp_vs_runtimes_def mk_zips_def
  by (auto intro!: fail_stop_bind fail_stop_for fail_stop_return build_for_arch_fail_stop
      mk_build_dir_fail_stop mk_z3_fail_stop
      fail_stop_quiet_stage [OF cp_license_stage] fail_stop_quiet_stage [OF cp_vs_runtime_stage]
      fail_stop_quiet_stage [OF mk_zip_stage]
      simp: license_copy_def runtime_copy_def archive_write_def)

lemma main_failing_run:
  "main example_cfg os_failing [] =
     (Inl (MKException ''failed to run commands''),
      [Enter ''mk_build_dir'' ''x64'',
       Effect (WriteFile ''z3_tmp.cmd''
         (script_of (configure_cmds example_cfg (bslashed [''build-dist'', ''x64'']) ''x64'' None))),
       Effect (Call ''z3_tmp.cmd'' (Some 1))])"
  by code_simp

text \<open>
  Claim C1 says that, with every architecture in scope, a failed session stops only
  the pipeline of its architecture. On a fresh checkout with a failing toolchain the
  run ends in the exception of the x64 configure session: nothing is entered for x86
  or arm64.
\<close>

theorem toolchain_failure_counterexample:
  "main example_cfg os_failing [] =
     (Inl (MKException ''failed to run commands''),
      [Enter ''mk_build_dir'' ''x64'',
       Effect (WriteFile ''z3_tmp.cmd''
         (script_of (configure_cmds example_cfg (bslashed [''build-dist'', ''x64'']) ''x64'' None))),
       Effect (Call ''z3_tmp.cmd'' (Some 1))])"
  by (rule main_failing_run)

text \<open>
  Claim C1, amended. In every scope, a failed configure or install session is the last
  step of the whole run: the exception it raises (\<open>failed to run commands\<close>, \<open>Failed to
  make z3\<close>) is handled nowhere, so it ends the run, and no stage of any architecture
  follows it.
\<close>

theorem toolchain_failure_aborts_run:
  assumes "main cfg os h = (r, h')"
  shows "\<exists>new. h' = h @ new
     \<and> (\<forall>pre s post. new = pre @ s # post \<longrightarrow> failed_call s \<longrightarrow>
          post = []
          \<and> (r = Inl (MKException ''failed to run commands'')
             \<or> r = Inl (MKException ''Failed to make z3'')))"
proof -
  from obeysD [OF main_fail_stop assms] obtain new where
    new: "h' = h @ new" "fail_stop (raised r) new"
    by blast
  have "r = Inl (MKException ''failed to run commands'') \<or> r = Inl (MKException ''Failed to make z3'')"
    if "raised r = Some e" "toolchain_error e" for e
    using that by (cases r) (auto simp: toolchain_error_def)
  with new show ?thesis
    unfolding fail_stop_def by blast
qed

theorem toolchain_failure_aborts_run_witness:
  "main example_cfg os_failing [] =
     (Inl (MKException ''failed to run commands''),
      [Enter ''mk_build_dir'' ''x64'',
       Effect (WriteFile ''z3_tmp.cmd''
         (script_of (configure_cmds example_cfg (bslashed [''build-dist'', ''x64'']) ''x64'' None))),
       Effect (Call ''z3_tmp.cmd'' (Some 1))])
   \<and> failed_call (Effect (Call ''z3_tmp.cmd'' (Some 1)))"
  using toolchain_failure_aborts_run [OF main_failing_run]
  by (simp add: main_failing_run failed_call_def)

section \<open>Order of the stages\<close>

lemma entered_map_Effect [simp]: "entered (map Effect es) = []"
  by (induction es) simp_all

lemma stage_enters: "stage f a K r new \<Longrightarrow> enters [(f, a)] r new"
  by (auto simp: stage_def enters_def)

lemma enters_seq:
  assumes "obeys (enters p1) m" and "\<And>x. obeys (enters p2) (f x)"
  shows "obeys (enters (p1 @ p2)) (py_bind m f)"
  using assms
proof (rule obeys_seq)
  show "\<And>e n. enters p1 (Some e) n \<Longrightarrow> enters (p1 @ p2) (Some e) n"
    by (simp add: enters_def prefix_prefix)
  show "\<And>r n1 n2. enters p1 None n1 \<Longrightarrow> enters p2 r n2 \<Longrightarrow> enters (p1 @ p2) r (n1 @ n2)"
    by (simp add: enters_def)
qed

lemma enters_for:
  assumes "\<And>x. obeys (enters [(f, x)]) (g x)"
  shows "obeys (enters (map (Pair f) xs)) (py_for g xs)"
proof (induction xs)
  case Nil
  show ?case
    by (simp add: obeys_def enters_def)
next
  case (Cons x xs)
  have "py_for g (x # xs) = py_bind (g x) (\<lambda>u. py_for g xs)"
    by (rule ext) (simp add: py_bind_def)
  moreover have "obeys (enters ([(f, x)] @ map (Pair f) xs)) (py_bind (g x) (\<lambda>u. py_for g xs))"
    by (intro enters_seq assms Cons.IH)
  ultimately show ?case
    by simp
qed

lemma enters_stage: "obeys (stage f a K) m \<Longrightarrow> obeys (enters [(f, a)]) m"
  by (erule obeys_mono) (erule stage_enters)

lemma main_all_enters:
  assumes "\<not> X86ONLY cfg" "\<not> X64ONLY cfg" "\<not> ARM64ONLY cfg"
  shows "obeys (enters (all_scope_plan cfg)) (main cfg os)"
proof -
  let ?ks = "arch_keys cfg"
  have zip: "obeys (enters (if ZIP_BUILD_OUTPUTS cfg then map (Pair ''mk_zip'') ?ks else []))
      (if ZIP_BUILD_OUTPUTS cfg then mk_zips cfg os else py_return ())"
    unfolding mk_zips_def
    by (auto intro!: enters_for enters_stage [OF mk_zip_stage] obeys_return simp: enters_def)
  have plan: "all_scope_plan cfg = map (Pair ''mk_build_dir'') ?ks @ map (Pair ''mk_z3'') ?ks
        @ map (Pair ''cp_license'') ?ks @ map (Pair ''cp_vs_runtime'') ?ks
        @ (if ZIP_BUILD_OUTPUTS cfg then map (Pair ''mk_zip'') ?ks else [])"
    by (simp add: all_scope_plan_def)
  have scope: "main cfg os =
      py_bind (mk_build_dirs cfg os) (\<lambda>_.
        py_bind (mk_z3s cfg os) (\<lambda>_.
        py_bind (cp_licenses cfg os) (\<lambda>_.
        py_bind (cp_vs_runtimes cfg os) (\<lambda>_.
          if ZIP_BUILD_OUTPUTS cfg then mk_zips cfg os else py_return ()))))"
    using assms by (simp add: main_def)
  have "obeys (enters (map (Pair ''mk_build_dir'') ?ks @ map (Pair ''mk_z3'') ?ks
        @ map (Pair ''cp_license'') ?ks @ map (Pair ''cp_vs_runtime'') ?ks
        @ (if ZIP_BUILD_OUTPUTS cfg then map (Pair ''mk_zip'') ?ks else [])))
      (py_bind (mk_build_dirs cfg os) (\<lambda>_.
        py_bind (mk_z3s cfg os) (\<lambda>_.
        py_bind (cp_licenses cfg os) (\<lambda>_.
        py_bind (cp_vs_runtimes cfg os) (\<lambda>_.
          if ZIP_BUILD_OUTPUTS cfg then mk_zips cfg os else py_return ())))))"
    unfolding mk_build_dirs_def mk_z3s_def cp_licenses_def cp_vs_runtimes_def
    by (intro enters_seq enters_for zip enters_stage [OF mk_build_dir_stage]
        enters_stage [OF mk_z3_stage] enters_stage [OF cp_license_stage]
        enters_stage [OF cp_vs_runtime_stage])
  then show ?thesis
    by (simp only: plan scope)
qed

lemma main_fresh_entered:
  "entered (snd (main example_cfg os_fresh [])) =
     [(''mk_build_dir'', ''x64''), (''mk_build_dir'', ''x86''), (''mk_build_dir'', ''arm64''),
      (''mk_z3'', ''x64''), (''mk_z3'', ''x86''), (''mk_z3'', ''arm64''),
      (''cp_license'', ''x64''), (''cp_license'', ''x86''), (''cp_license'', ''arm64''),
      (''cp_vs_runtime'', ''x64''), (''cp_vs_runtime'', ''x86''), (''cp_vs_runtime'', ''arm64''),
      (''mk_zip'', ''x64''), (''mk_zip'', ''x86''), (''mk_zip'', ''arm64'')]"
  by code_simp

lemma main_fresh_result: "fst (main example_cfg os_fresh []) = Inr ()"
  by code_simp

text \<open>
  Claim C2 says that one architecture's pipeline runs to completion before the next
  begins. With every architecture in scope, on a fresh checkout where everything
  succeeds, all three workspaces are configured before the first install session.
\<close>

theorem pipeline_order_counterexample:
  "entered (snd (main example_cfg os_fresh [])) =
     [(''mk_build_dir'', ''x64''), (''mk_build_dir'', ''x86''), (''mk_build_dir'', ''arm64''),
      (''mk_z3'', ''x64''), (''mk_z3'', ''x86''), (''mk_z3'', ''arm64''),
      (''cp_license'', ''x64''), (''cp_license'', ''x86''), (''cp_license'', ''arm64''),
      (''cp_vs_runtime'', ''x64''), (''cp_vs_runtime'', ''x86''), (''cp_vs_runtime'', ''arm64''),
      (''mk_zip'', ''x64''), (''mk_zip'', ''x86''), (''mk_zip'', ''arm64'')]
   \<and> \<not> arch_sequential (map snd (entered (snd (main example_cfg os_fresh []))))"
  by (simp add: main_fresh_entered)

text \<open>
  Claim C2, amended. With every architecture in scope, execution is sequential per
  stage: configure, install, license, runtime libraries and (when archives are enabled)
  archive, each stage for x64, x86 and arm64 in this order before the next stage
  begins. A run that raises has entered a prefix of this plan.
\<close>

theorem stage_major_order:
  assumes "\<not> X86ONLY cfg" and "\<not> X64ONLY cfg" and "\<not> ARM64ONLY cfg"
    and "main cfg os h = (r, h')"
  shows "\<exists>new. h' = h @ new
     \<and> prefix (entered new) (all_scope_plan cfg)
     \<and> (r = Inr () \<longrightarrow> entered new = all_scope_plan cfg)"
proof -
  from obeysD [OF main_all_enters [OF assms(1-3)] assms(4)] obtain new where
    "h' = h @ new" "enters (all_scope_plan cfg) (raised r) new"
    by blast
  then show ?thesis
    by (auto simp: enters_def)
qed

theorem stage_major_order_witness:
  "\<exists>new. snd (main example_cfg os_fresh []) = [] @ new
     \<and> entered new = all_scope_plan example_cfg
     \<and> all_scope_plan example_cfg =
         [(''mk_build_dir'', ''x64''), (''mk_build_dir'', ''x86''), (''mk_build_dir'', ''arm64''),
          (''mk_z3'', ''x64''), (''mk_z3'', ''x86''), (''mk_z3'', ''arm64''),
          (''cp_license'', ''x64''), (''cp_license'', ''x86''), (''cp_license'', ''arm64''),
          (''cp_vs_runtime'', ''x64''), (''cp_vs_runtime'', ''x86''), (''cp_vs_runtime'', ''arm64''),
          (''mk_zip'', ''x64''), (''mk_zip'', ''x86''), (''mk_zip'', ''arm64'')]"
proof -
  have scope: "\<not> X86ONLY example_cfg" "\<not> X64ONLY example_cfg" "\<not> ARM64ONLY example_cfg"
    by (simp_all add: example_cfg_def)
  have run: "main example_cfg os_fresh [] = (Inr (), snd (main example_cfg os_fresh []))"
    using main_fresh_result by (simp add: prod_eq_iff)
  have plan: "all_scope_plan example_cfg =
         [(''mk_build_dir'', ''x64''), (''mk_build_dir'', ''x86''), (''mk_build_dir'', ''arm64''),
          (''mk_z3'', ''x64''), (''mk_z3'', ''x86''), (''mk_z3'', ''arm64''),
          (''cp_license'', ''x64''), (''cp_license'', ''x86''), (''cp_license'', ''arm64''),
          (''cp_vs_runtime'', ''x64''), (''cp_vs_runtime'', ''x86''), (''cp_vs_runtime'', ''arm64''),
          (''mk_zip'', ''x64''), (''mk_zip'', ''x86''), (''mk_zip'', ''arm64'')]"
    by (simp add: all_scope_plan_def arch_keys_def ARCHS_def example_cfg_def)
  from stage_major_order [OF scope run] plan show ?thesis
    by auto
qed

section \<open>Revision failures\<close>










section \<open>Archive name\<close>


lemma get_z3_name_plain:
  "\<not> GIT_HASH cfg \<Longrightarrow>
   get_z3_name cfg os arch h = (Inr (''z3-'' @ z3_version cfg @ ''-'' @ arch @ ''-win''), h)"
  by (simp add: get_z3_name_def py_return_def)

lemma get_z3_name_hash:
  "GIT_HASH cfg \<Longrightarrow> get_git_hash os h = (Inr g, h1) \<Longrightarrow>
   get_z3_name cfg os arch h
     = (Inr (''z3-'' @ z3_version cfg @ ''.'' @ g @ ''-'' @ arch @ ''-win''), h1)"
  by (simp add: get_z3_name_def py_bind_def py_return_def)

lemma mk_zip_named:
  assumes "map_of (ARCHS cfg) arch = Some build_dir"
    and "\<forall>es ev. \<not> os_raises os es ev"
    and "get_z3_name cfg os arch (h @ [Enter ''mk_zip'' arch]) = (Inr name, h1)"
  shows "mk_zip cfg os arch h =
     (Inr (), h1 @ [Effect (Chdir (path_join build_dir DIST_DIR)),
                    Effect (ZipOpen (name @ ''.zip'') ZIP_DEFLATED),
                    Effect (Chdir (os_getcwd os (effects h1)))])"
  using assms
  by (simp add: mk_zip_def mk_zip_body_def py_bind_def enter_def get_build_dir_def py_return_def
      ask_def py_try_pass_def perform_def py_raise_def)

text \<open>
  Claim C5, amended. For every version, architecture of the registry and revision, when
  no file operation raises, \<open>mk_zip\<close> opens for writing, with deflate compression and in
  the install tree of the architecture, the archive
  \<open>z3-<version>-<arch>-win.zip\<close>, or \<open>z3-<version>.<revhash>-<arch>-win.zip\<close> when the
  revision is included: the hash is joined to the version by a dot. Nothing is said
  here of the entries of the archive.
\<close>

theorem archive_name:
  assumes "map_of (ARCHS cfg) arch = Some build_dir"
    and "\<forall>es ev. \<not> os_raises os es ev"
    and "GIT_HASH cfg \<longrightarrow> get_git_hash os (h @ [Enter ''mk_zip'' arch]) = (Inr g, h1)"
    and "\<not> GIT_HASH cfg \<longrightarrow> h1 = h @ [Enter ''mk_zip'' arch]"
  shows "mk_zip cfg os arch h =
     (Inr (), h1 @ [Effect (Chdir (path_join build_dir DIST_DIR)),
                    Effect (ZipOpen (''z3-'' @ z3_version cfg @ (if GIT_HASH cfg then ''.'' @ g else [])
                                      @ ''-'' @ arch @ ''-win.zip'') ZIP_DEFLATED),
                    Effect (Chdir (os_getcwd os (effects h1)))])"
proof (cases "GIT_HASH cfg")
  case True
  with assms(3) have "get_z3_name cfg os arch (h @ [Enter ''mk_zip'' arch])
     = (Inr (''z3-'' @ z3_version cfg @ ''.'' @ g @ ''-'' @ arch @ ''-win''), h1)"
    by (simp add: get_z3_name_hash)
  from mk_zip_named [OF assms(1,2) this] True show ?thesis
    by simp
next
  case False
  with assms(4) have "get_z3_name cfg os arch (h @ [Enter ''mk_zip'' arch])
     = (Inr (''z3-'' @ z3_version cfg @ ''-'' @ arch @ ''-win''), h1)"
    by (simp add: get_z3_name_plain)
  from mk_zip_named [OF assms(1,2) this] False show ?thesis
    by simp
qed

lemma mk_zip_git_run:
  "mk_zip (example_cfg\<lparr>GIT_HASH := True\<rparr>) os_git ''x64'' [] =
     (Inr (),
      [Enter ''mk_zip'' ''x64'',
       Effect (Popen git_branch_cmd (Some (''master'' @ [LF]))),
       Effect (Popen (git_show_ref_cmd ''master'') (Some (''0123456789ab refs/heads/master'' @ [LF]))),
       Effect (Chdir (bslashed [''build-dist'', ''x64'', ''dist''])),
       Effect (ZipOpen ''z3-4.0123456789ab-x64-win.zip'' ZIP_DEFLATED),
       Effect (Chdir (bslashed [''C:'', ''z3'']))])"
  by code_simp

text \<open>
  Claim C5 says that the revision hash is joined to the version by \<open>-\<close>. Version 4 at
  revision \<open>0123456789ab\<close> for x64 gives \<open>z3-4.0123456789ab-x64-win.zip\<close>.
\<close>

theorem archive_name_counterexample:
  "mk_zip (example_cfg\<lparr>GIT_HASH := True\<rparr>) os_git ''x64'' [] =
     (Inr (),
      [Enter ''mk_zip'' ''x64'',
       Effect (Popen git_branch_cmd (Some (''master'' @ [LF]))),
       Effect (Popen (git_show_ref_cmd ''master'') (Some (''0123456789ab refs/heads/master'' @ [LF]))),
       Effect (Chdir (bslashed [''build-dist'', ''x64'', ''dist''])),
       Effect (ZipOpen ''z3-4.0123456789ab-x64-win.zip'' ZIP_DEFLATED),
       Effect (Chdir (bslashed [''C:'', ''z3'']))])
   \<and> ''z3-4.0123456789ab-x64-win.zip'' \<noteq> ''z3-4-0123456789ab-x64-win.zip''"
  by (simp add: mk_zip_git_run)

lemma git_hash_run:
  "get_git_hash os_git [Enter ''mk_zip'' ''arm64''] =
     (Inr ''0123456789ab'',
      [Enter ''mk_zip'' ''arm64'',
       Effect (Popen git_branch_cmd (Some (''master'' @ [LF]))),
       Effect (Popen (git_show_ref_cmd ''master'') (Some (''0123456789ab refs/heads/master'' @ [LF])))])"
  by code_simp

theorem archive_name_witness:
  "mk_zip (example_cfg\<lparr>GIT_HASH := True, ASSEMBLY_VERSION := Some ''4.13.0''\<rparr>) os_git ''arm64'' [] =
     (Inr (),
      [Enter ''mk_zip'' ''arm64'',
       Effect (Popen git_branch_cmd (Some (''master'' @ [LF]))),
       Effect (Popen (git_show_ref_cmd ''master'') (Some (''0123456789ab refs/heads/master'' @ [LF]))),
       Effect (Chdir (bslashed [''build-dist'', ''arm64'', ''dist''])),
       Effect (ZipOpen ''z3-4.13.0.0123456789ab-arm64-win.zip'' ZIP_DEFLATED),
       Effect (Chdir (bslashed [''C:'', ''z3'']))])"
proof -
  let ?cfg = "example_cfg\<lparr>GIT_HASH := True, ASSEMBLY_VERSION := Some ''4.13.0''\<rparr>"
  have path: "map_of (ARCHS ?cfg) ''arm64'' = Some (bslashed [''build-dist'', ''arm64''])"
    by (simp add: ARCHS_def example_cfg_def path_join_def splitdrive_def BSLASH_def)
  have quiet: "\<forall>es ev. \<not> os_raises os_git es ev"
    by (simp add: os_git_def example_os_def)
  have hash: "GIT_HASH ?cfg \<longrightarrow> get_git_hash os_git ([] @ [Enter ''mk_zip'' ''arm64'']) =
     (Inr ''0123456789ab'',
      [Enter ''mk_zip'' ''arm64'',
       Effect (Popen git_branch_cmd (Some (''master'' @ [LF]))),
       Effect (Popen (git_show_ref_cmd ''master'') (Some (''0123456789ab refs/heads/master'' @ [LF])))])"
    using git_hash_run by simp
  have plain: "\<not> GIT_HASH ?cfg \<longrightarrow>
      [Enter ''mk_zip'' ''arm64'',
       Effect (Popen git_branch_cmd (Some (''master'' @ [LF]))),
       Effect (Popen (git_show_ref_cmd ''master'') (Some (''0123456789ab refs/heads/master'' @ [LF])))]
      = [] @ [Enter ''mk_zip'' ''arm64'']"
    by simp
  from archive_name [OF path quiet hash plain] show ?thesis
    by (simp add: z3_version_def example_cfg_def path_join_def splitdrive_def DIST_DIR_def
        BSLASH_def os_git_def example_os_def)
qed

section \<open>The x64 scenario\<close>








lemma x64_configured_run:
  "main (example_cfg\<lparr>X64ONLY := True\<rparr>) os_configured [] =
     (Inr (),
      [Enter ''mk_build_dir'' ''x64'',
       Enter ''mk_z3'' ''x64'',
       Effect (WriteFile ''z3_tmp.cmd''
         (script_of (install_cmds (bslashed [''build-dist'', ''x64'']) ''x64''))),
       Effect (Call ''z3_tmp.cmd'' (Some 0)),
       Enter ''cp_license'' ''x64'',
       Effect (CopyFile ''LICENSE.txt'' (bslashed [''dist'', ''z3-4-x64-win''])),
       Enter ''cp_vs_runtime'' ''x64'',
       Effect (CopyFile (crt_dir [''x64'', ''Microsoft.VC143.CRT'', ''vcruntime140.dll''])
                 (bslashed [''build-dist'', ''x64'', ''dist'', ''bin''])),
       Enter ''mk_zip'' ''x64'',
       Effect (Chdir (bslashed [''build-dist'', ''x64'', ''dist''])),
       Effect (ZipOpen ''z3-4-x64-win.zip'' ZIP_DEFLATED),
       Effect (Chdir (bslashed [''C:'', ''z3'']))])"
  by code_simp


section \<open>Order of the packaging steps\<close>

lemma effects_map_Effect [simp]: "effects (map Effect es) = es"
  by (induction es) simp_all

lemma stage_pk:
  assumes "stage f a K r new" and "\<And>e. K e \<Longrightarrow> packaging e \<Longrightarrow> C e"
  shows "pk C r' new"
  using assms by (auto simp: stage_def pk_def)

lemma pk_stage: "obeys (stage f a K) m \<Longrightarrow> (\<And>e. K e \<Longrightarrow> packaging e \<Longrightarrow> C e) \<Longrightarrow> obeys (pk C) m"
  by (erule obeys_mono) (erule stage_pk)

lemma pk_for:
  assumes "\<And>x. obeys (pk C) (f x)"
  shows "obeys (pk C) (py_for f xs)"
proof (rule obeys_for)
  show "\<And>x. obeys (pk C) (f x)"
    by (rule assms)
  show "pk C None []"
    by (simp add: pk_def)
  show "\<And>r n1 n2. pk C None n1 \<Longrightarrow> pk C r n2 \<Longrightarrow> pk C r (n1 @ n2)"
    by (auto simp: pk_def)
qed

lemma pk_bind:
  assumes "obeys (pk C) m" and "\<And>x. obeys (pk C) (f x)"
  shows "obeys (pk C) (py_bind m f)"
  using assms by (rule obeys_bind) (auto simp: pk_def)

lemma order_after_quiet:
  assumes "obeys (pk (\<lambda>e. False)) m" and "\<And>x. obeys (packaging_order cfg) (f x)"
  shows "obeys (packaging_order cfg) (py_bind m f)"
  using assms
proof (rule obeys_seq)
  show "\<And>e n. pk (\<lambda>e. False) (Some e) n \<Longrightarrow> packaging_order cfg (Some e) n"
    by (auto simp: pk_def packaging_order_def filter_empty_conv)
  show "\<And>r n1 n2. pk (\<lambda>e. False) None n1 \<Longrightarrow> packaging_order cfg r n2
      \<Longrightarrow> packaging_order cfg r (n1 @ n2)"
    by (auto simp: pk_def packaging_order_def filter_empty_conv)
qed

lemma order_of_three:
  assumes l: "obeys (pk license_copy) ml"
    and r: "\<And>x. obeys (pk (runtime_copy cfg)) (mr x)"
    and z: "\<And>x y. obeys (pk (\<lambda>e. archive_write e \<and> ZIP_BUILD_OUTPUTS cfg)) (mz x y)"
  shows "obeys (packaging_order cfg) (py_bind ml (\<lambda>x. py_bind (mr x) (mz x)))"
proof -
  let ?RZ = "\<lambda>r new. \<exists>rs zs. filter packaging (effects new) = rs @ zs
        \<and> (\<forall>e\<in>set rs. runtime_copy cfg e)
        \<and> (\<forall>e\<in>set zs. archive_write e \<and> ZIP_BUILD_OUTPUTS cfg)"
  have rz: "obeys ?RZ (py_bind (mr x) (mz x))" for x
  proof (rule obeys_seq [OF r z])
    fix e n
    assume "pk (runtime_copy cfg) (Some e) n"
    then show "?RZ (Some e) n"
      unfolding pk_def by (intro exI [of _ "filter packaging (effects n)"] exI [of _ "[]"]) simp
  next
    fix r n1 n2
    assume "pk (runtime_copy cfg) None n1"
      and "pk (\<lambda>e. archive_write e \<and> ZIP_BUILD_OUTPUTS cfg) r n2"
    then show "?RZ r (n1 @ n2)"
      unfolding pk_def
      by (intro exI [of _ "filter packaging (effects n1)"]
          exI [of _ "filter packaging (effects n2)"]) simp
  qed
  show ?thesis
  proof (rule obeys_seq [OF l rz])
    fix e n
    assume "pk license_copy (Some e) n"
    then show "packaging_order cfg (Some e) n"
      unfolding pk_def packaging_order_def
      by (intro exI [of _ "filter packaging (effects n)"] exI [of _ "[]"]) simp
  next
    fix r n1 n2
    assume "pk license_copy None n1" and "?RZ r n2"
    then obtain rs zs where "filter packaging (effects n2) = rs @ zs"
      "\<forall>e\<in>set rs. runtime_copy cfg e" "\<forall>e\<in>set zs. archive_write e \<and> ZIP_BUILD_OUTPUTS cfg"
      "\<forall>e\<in>set (filter packaging (effects n1)). license_copy e"
      unfolding pk_def by blast
    then show "packaging_order cfg r (n1 @ n2)"
      unfolding packaging_order_def
      by (intro exI [of _ "filter packaging (effects n1)"] exI [of _ rs] exI [of _ zs]) simp
  qed
qed

lemma quiet_stages:
  "obeys (pk (\<lambda>e. False)) (mk_build_dir cfg os arch)"
  "obeys (pk (\<lambda>e. False)) (mk_z3 cfg os arch)"
  by (rule pk_stage [OF mk_build_dir_stage], auto simp: packaging_def)
    (rule pk_stage [OF mk_z3_stage], auto simp: packaging_def)

lemma packaging_stages:
  "obeys (pk license_copy) (cp_license cfg os arch)"
  "obeys (pk (runtime_copy cfg)) (cp_vs_runtime cfg os arch)"
  "obeys (pk (\<lambda>e. archive_write e \<and> ZIP_BUILD_OUTPUTS cfg))
     (if ZIP_BUILD_OUTPUTS cfg then mk_zip cfg os arch else py_return ())"
  "obeys (pk (\<lambda>e. archive_write e \<and> ZIP_BUILD_OUTPUTS cfg))
     (if ZIP_BUILD_OUTPUTS cfg then mk_zips cfg os else py_return ())"
proof -
  show "obeys (pk license_copy) (cp_license cfg os arch)"
    by (rule pk_stage [OF cp_license_stage]) (auto simp: packaging_def)
  show "obeys (pk (runtime_copy cfg)) (cp_vs_runtime cfg os arch)"
    by (rule pk_stage [OF cp_vs_runtime_stage])
  have zip: "ZIP_BUILD_OUTPUTS cfg \<Longrightarrow>
      obeys (pk (\<lambda>e. archive_write e \<and> ZIP_BUILD_OUTPUTS cfg)) (mk_zip cfg os a)" for a
    by (rule pk_stage [OF mk_zip_stage]) (auto simp: packaging_def)
  have none: "obeys (pk (\<lambda>e. archive_write e \<and> ZIP_BUILD_OUTPUTS cfg)) (py_return ())"
    by (rule obeys_return) (simp add: pk_def)
  show "obeys (pk (\<lambda>e. archive_write e \<and> ZIP_BUILD_OUTPUTS cfg))
     (if ZIP_BUILD_OUTPUTS cfg then mk_zip cfg os arch else py_return ())"
  proof (cases "ZIP_BUILD_OUTPUTS cfg")
    case True
    from zip [OF True] True show ?thesis by (simp only: if_True)
  next
    case False
    from none False show ?thesis by (simp only: if_False)
  qed
  show "obeys (pk (\<lambda>e. archive_write e \<and> ZIP_BUILD_OUTPUTS cfg))
     (if ZIP_BUILD_OUTPUTS cfg then mk_zips cfg os else py_return ())"
  proof (cases "ZIP_BUILD_OUTPUTS cfg")
    case True
    have "obeys (pk (\<lambda>e. archive_write e \<and> ZIP_BUILD_OUTPUTS cfg)) (mk_zips cfg os)"
      unfolding mk_zips_def by (rule pk_for) (rule zip [OF True])
    with True show ?thesis by (simp only: if_True)
  next
    case False
    from none False show ?thesis by (simp only: if_False)
  qed
qed

lemma build_for_arch_order: "obeys (packaging_order cfg) (build_for_arch cfg os arch)"
  unfolding build_for_arch_def
  by (intro order_after_quiet quiet_stages order_of_three packaging_stages)

lemma main_order: "obeys (packaging_order cfg) (main cfg os)"
proof -
  have "obeys (packaging_order cfg)
      (py_bind (mk_build_dirs cfg os) (\<lambda>_.
        py_bind (mk_z3s cfg os) (\<lambda>_.
        py_bind (cp_licenses cfg os) (\<lambda>_.
        py_bind (cp_vs_runtimes cfg os) (\<lambda>_.
          if ZIP_BUILD_OUTPUTS cfg then mk_zips cfg os else py_return ())))))"
    unfolding mk_build_dirs_def mk_z3s_def cp_licenses_def cp_vs_runtimes_def
    by (intro order_after_quiet order_of_three pk_for quiet_stages packaging_stages)
  then show ?thesis
    by (simp add: main_def build_for_arch_order)
qed

text \<open>
  Claim C4, amended. In every run, in any scope, the packaging steps come in this
  order: first the copies of the license file into the named distribution root, then
  the copies of the located runtime files into the install \<open>bin\<close> directory of their
  architecture, then, only if archiving is enabled, the archives opened for writing
  with deflate compression; and the three kinds of step exclude one another. So for
  every architecture its license copy precedes its runtime copies, which precede its
  archive.
\<close>

theorem packaging_steps_in_order:
  assumes "main cfg os h = (r, h')"
  shows "(\<exists>new ls rs zs. h' = h @ new
      \<and> filter packaging (effects new) = ls @ rs @ zs
      \<and> (\<forall>e\<in>set ls. license_copy e)
      \<and> (\<forall>e\<in>set rs. runtime_copy cfg e)
      \<and> (\<forall>e\<in>set zs. archive_write e \<and> ZIP_BUILD_OUTPUTS cfg))
     \<and> \<not> (license_copy e \<and> runtime_copy cfg e)
     \<and> \<not> (license_copy e \<and> archive_write e)
     \<and> \<not> (runtime_copy cfg e \<and> archive_write e)"
proof -
  have "\<not> fnmatch_dll ''LICENSE.txt''"
    by code_simp
  then have "\<not> (license_copy e \<and> runtime_copy cfg e)"
    by (auto simp: license_copy_def runtime_copy_def)
  moreover have "\<not> (license_copy e \<and> archive_write e)" "\<not> (runtime_copy cfg e \<and> archive_write e)"
    by (auto simp: license_copy_def runtime_copy_def archive_write_def)
  ultimately show ?thesis
    using obeysD [OF main_order assms] unfolding packaging_order_def by blast
qed

text \<open>
  Claim C4 says that the runtime files are copied first and the license second. In the
  run of the x64 pipeline on a configured workspace the license is copied first.
\<close>

theorem packaging_counterexample:
  "filter packaging (effects (snd (main (example_cfg\<lparr>X64ONLY := True\<rparr>) os_configured []))) =
     [CopyFile ''LICENSE.txt'' (bslashed [''dist'', ''z3-4-x64-win'']),
      CopyFile (crt_dir [''x64'', ''Microsoft.VC143.CRT'', ''vcruntime140.dll''])
        (bslashed [''build-dist'', ''x64'', ''dist'', ''bin'']),
      ZipOpen ''z3-4-x64-win.zip'' ZIP_DEFLATED]"
  by (simp add: x64_configured_run packaging_def)

theorem packaging_steps_in_order_witness:
  "filter packaging (effects (snd (main (example_cfg\<lparr>X64ONLY := True\<rparr>) os_configured []))) =
     [CopyFile ''LICENSE.txt'' (bslashed [''dist'', ''z3-4-x64-win''])]
     @ [CopyFile (crt_dir [''x64'', ''Microsoft.VC143.CRT'', ''vcruntime140.dll''])
          (bslashed [''build-dist'', ''x64'', ''dist'', ''bin''])]
     @ [ZipOpen ''z3-4-x64-win.zip'' ZIP_DEFLATED]
   \<and> license_copy (CopyFile ''LICENSE.txt'' (bslashed [''dist'', ''z3-4-x64-win'']))
   \<and> archive_write (ZipOpen ''z3-4-x64-win.zip'' ZIP_DEFLATED)"
proof -
  have "license_copy (CopyFile ''LICENSE.txt'' (path_join DIST_DIR ''z3-4-x64-win''))"
    unfolding license_copy_def by blast
  then have "license_copy (CopyFile ''LICENSE.txt'' (bslashed [''dist'', ''z3-4-x64-win'']))"
    by (simp add: path_join_def splitdrive_def DIST_DIR_def BSLASH_def)
  then show ?thesis
    using packaging_steps_in_order [of "example_cfg\<lparr>X64ONLY := True\<rparr>" os_configured "[]"
        "Inr ()" "snd (main (example_cfg\<lparr>X64ONLY := True\<rparr>) os_configured [])"]
    by (simp add: x64_configured_run packaging_def archive_write_def)
qed

end
